theory Spec2Isabelle
  imports Main
begin

section \<open>Runes and strings\<close>

text \<open>
  A Go \<^verbatim>\<open>rune\<close> is a Unicode code point; a Go string is read here as the list of
  runes that \<^verbatim>\<open>range\<close> yields and that \<^verbatim>\<open>strings.Builder.WriteRune\<close> appends.
  Literals of the source are written \<open>str ''...''\<close>.
\<close>

type_synonym rune = nat
type_synonym gostring = "rune list"

abbreviation str :: "string \<Rightarrow> gostring" where
  "str s \<equiv> map of_char s"

text \<open>\<^verbatim>\<open>strings.Split(s, sep)\<close> for a one-rune separator: never empty, \<open>[\<close>\<^verbatim>\<open>""\<close>\<open>]\<close> on
  the empty string.\<close>

fun split_on :: "rune \<Rightarrow> gostring \<Rightarrow> gostring list" where
  "split_on sep [] = [[]]"
| "split_on sep (c # cs) =
     (if c = sep then [] # split_on sep cs
      else (c # hd (split_on sep cs)) # tl (split_on sep cs))"

section \<open>The terminal style (tcell.Style)\<close>

text \<open>
  \<^verbatim>\<open>tcell.Style\<close> belongs to the terminal library, not to this program. It is a value
  with a foreground, a background, an attribute mask and the two hyperlink strings.
  A colour is represented by the name that is handed to \<^verbatim>\<open>tcell.GetColor\<close>; the empty
  name is \<^verbatim>\<open>tcell.ColorDefault\<close>, the zero value.
\<close>

datatype attr =
  AttrBold | AttrBlink | AttrReverse | AttrUnderline | AttrDim | AttrItalic | AttrStrikeThrough

type_synonym color = gostring

record tstyle =
  fg :: color
  bg :: color
  attrs :: "attr set"
  url :: gostring
  urlId :: gostring

definition ColorDefault :: color where
  "ColorDefault = []"

definition StyleDefault :: tstyle where
  "StyleDefault = \<lparr>fg = ColorDefault, bg = ColorDefault, attrs = {}, url = [], urlId = []\<rparr>"

text \<open>\<^verbatim>\<open>Style.Normal\<close> keeps the two colours and drops everything else.\<close>

definition Normal :: "tstyle \<Rightarrow> tstyle" where
  "Normal s = \<lparr>fg = fg s, bg = bg s, attrs = {}, url = [], urlId = []\<rparr>"

definition Background :: "tstyle \<Rightarrow> color \<Rightarrow> tstyle" where
  "Background s c = s\<lparr>bg := c\<rparr>"

definition Foreground :: "tstyle \<Rightarrow> color \<Rightarrow> tstyle" where
  "Foreground s c = s\<lparr>fg := c\<rparr>"

definition Url :: "tstyle \<Rightarrow> gostring \<Rightarrow> tstyle" where
  "Url s u = s\<lparr>url := u\<rparr>"

definition UrlId :: "tstyle \<Rightarrow> gostring \<Rightarrow> tstyle" where
  "UrlId s i = s\<lparr>urlId := i\<rparr>"

definition setAttr :: "tstyle \<Rightarrow> attr \<Rightarrow> bool \<Rightarrow> tstyle" where
  "setAttr s a on = (if on then s\<lparr>attrs := insert a (attrs s)\<rparr> else s\<lparr>attrs := attrs s - {a}\<rparr>)"

section \<open>The style delta (OVStyle)\<close>

text \<open>
  The declaration of \<^verbatim>\<open>OVStyle\<close> is not among the sources; the record has the fields
  that \<^verbatim>\<open>parseSGR\<close> reads and writes. \<open>OVStyle0\<close> is the zero value \<^verbatim>\<open>OVStyle{}\<close>.
\<close>

record OVStyle =
  Background_name :: gostring
  Foreground_name :: gostring
  Blink :: bool
  Bold :: bool
  Dim :: bool
  Italic :: bool
  Reverse :: bool
  Underline :: bool
  StrikeThrough :: bool
  OverLine :: bool
  UnBlink :: bool
  UnBold :: bool
  UnDim :: bool
  UnItalic :: bool
  UnReverse :: bool
  UnUnderline :: bool
  UnStrikeThrough :: bool
  UnOverLine :: bool

definition OVStyle0 :: OVStyle where
  "OVStyle0 = \<lparr>Background_name = [], Foreground_name = [],
     Blink = False, Bold = False, Dim = False, Italic = False, Reverse = False,
     Underline = False, StrikeThrough = False, OverLine = False,
     UnBlink = False, UnBold = False, UnDim = False, UnItalic = False, UnReverse = False,
     UnUnderline = False, UnStrikeThrough = False, UnOverLine = False\<rparr>"

text \<open>
  Modelled from the spec: \<^verbatim>\<open>applyStyle\<close> is called by \<^verbatim>\<open>sgrStyle\<close> and is not among
  the sources. The spec's rule for putting a style delta onto a style: a non-empty
  colour replaces and the empty one leaves the previous value; an on-bit sets its
  attribute; an Un-bit clears it and wins over the on-bit. The terminal library has no
  overline attribute, so the two overline bits change nothing.
\<close>

definition applyStyle :: "tstyle \<Rightarrow> OVStyle \<Rightarrow> tstyle" where
  "applyStyle style s =
    (let style = (if Background_name s \<noteq> [] then Background style (Background_name s) else style);
         style = (if Foreground_name s \<noteq> [] then Foreground style (Foreground_name s) else style);
         style = (if Blink s then setAttr style AttrBlink True else style);
         style = (if Bold s then setAttr style AttrBold True else style);
         style = (if Dim s then setAttr style AttrDim True else style);
         style = (if Italic s then setAttr style AttrItalic True else style);
         style = (if Reverse s then setAttr style AttrReverse True else style);
         style = (if Underline s then setAttr style AttrUnderline True else style);
         style = (if StrikeThrough s then setAttr style AttrStrikeThrough True else style);
         style = (if UnBlink s then setAttr style AttrBlink False else style);
         style = (if UnBold s then setAttr style AttrBold False else style);
         style = (if UnDim s then setAttr style AttrDim False else style);
         style = (if UnItalic s then setAttr style AttrItalic False else style);
         style = (if UnReverse s then setAttr style AttrReverse False else style);
         style = (if UnUnderline s then setAttr style AttrUnderline False else style);
         style = (if UnStrikeThrough s then setAttr style AttrStrikeThrough False else style)
     in style)"

section \<open>SGR parameters (convert\_es.go)\<close>

datatype err = ErrNotSuuport | ErrRange | ErrInvalidRGB | PanicIndex

record sgrParams =
  code :: int
  params :: "gostring list"
  colonF :: bool

definition sgrParams0 :: sgrParams where
  "sgrParams0 = \<lparr>code = 0, params = [], colonF = False\<rparr>"

definition Colors256 :: int where "Colors256 = 5"
definition ColorsRGB :: int where "ColorsRGB = 2"

text \<open>
  \<^verbatim>\<open>containsNonDigit\<close> asks \<^verbatim>\<open>unicode.IsDigit\<close> of every rune. Outside ASCII that
  function also holds of the decimal digits of other scripts; on such a rune the source
  goes on to \<^verbatim>\<open>strconv.Atoi\<close>, which rejects it, so \<^verbatim>\<open>sgrNumber\<close> returns an error
  either way. \<open>isDigit\<close> is the ASCII part, and the model reports the error at
  \<open>containsNonDigit\<close>.
\<close>

definition isDigit :: "rune \<Rightarrow> bool" where
  "isDigit r = (0x30 \<le> r \<and> r \<le> 0x39)"

fun containsNonDigit :: "gostring \<Rightarrow> bool" where
  "containsNonDigit [] = False"
| "containsNonDigit (c # cs) = (if \<not> isDigit c then True else containsNonDigit cs)"

text \<open>\<^verbatim>\<open>strconv.Atoi\<close> on a string of ASCII digits: the decimal value, or a range error
  beyond the largest 64-bit \<^verbatim>\<open>int\<close>.\<close>

definition digitsValue :: "gostring \<Rightarrow> int" where
  "digitsValue s = foldl (\<lambda>a d. a * 10 + (int d - 0x30)) 0 s"

definition maxInt :: int where
  "maxInt = 9223372036854775807"

definition Atoi :: "gostring \<Rightarrow> err + int" where
  "Atoi s = (if digitsValue s > maxInt then Inl ErrRange else Inr (digitsValue s))"

definition sgrNumber :: "gostring \<Rightarrow> err + int" where
  "sgrNumber s =
    (if s = [] then Inr 0
     else if containsNonDigit s then Inl ErrNotSuuport
     else Atoi s)"

text \<open>
  \<^verbatim>\<open>tcell.PaletteColor(n).String()\<close> is the terminal library's name of palette colour
  \<open>n\<close>; it is the parameter \<open>pal\<close> of everything below.
\<close>

definition colorName :: "(int \<Rightarrow> gostring) \<Rightarrow> int \<Rightarrow> gostring" where
  "colorName pal colorNumber =
    (if colorNumber < 0 \<or> colorNumber > 255 then [] else pal colorNumber)"

definition parse256Color :: "(int \<Rightarrow> gostring) \<Rightarrow> gostring \<Rightarrow> gostring \<times> err option" where
  "parse256Color pal param =
    (if param = [] then ([], None)
     else case sgrNumber param of
        Inl e \<Rightarrow> ([], Some e)
      | Inr c \<Rightarrow> (colorName pal c, None))"

text \<open>\<^verbatim>\<open>fmt.Sprintf("%02x", n)\<close> for \<open>0 \<le> n \<le> 255\<close>.\<close>

definition hexDigit :: "int \<Rightarrow> rune" where
  "hexDigit d = (if d < 10 then 0x30 + nat d else 0x61 + nat (d - 10))"

definition hex02 :: "int \<Rightarrow> gostring" where
  "hex02 n = [hexDigit (n div 16), hexDigit (n mod 16)]"

definition isErr :: "err + int \<Rightarrow> bool" where
  "isErr r = (case r of Inl _ \<Rightarrow> True | Inr _ \<Rightarrow> False)"

definition numOf :: "err + int \<Rightarrow> int" where
  "numOf r = (case r of Inl _ \<Rightarrow> 0 | Inr n \<Rightarrow> n)"

definition parseRGBColor :: "gostring \<Rightarrow> gostring \<Rightarrow> gostring \<Rightarrow> gostring \<times> err option" where
  "parseRGBColor red green blue =
    (if red = [] \<or> green = [] \<or> blue = [] then ([], None)
     else
       let r = numOf (sgrNumber red); g = numOf (sgrNumber green); b = numOf (sgrNumber blue) in
       if isErr (sgrNumber red) \<or> isErr (sgrNumber green) \<or> isErr (sgrNumber blue)
         then ([], Some ErrInvalidRGB)
       else if r < 0 \<or> r > 255 \<or> g < 0 \<or> g > 255 \<or> b < 0 \<or> b > 255 then ([], None)
       else (0x23 # hex02 r @ hex02 g @ hex02 b, None))"

definition convertSGRColor :: "(int \<Rightarrow> gostring) \<Rightarrow> sgrParams \<Rightarrow> gostring \<times> nat \<times> err option" where
  "convertSGRColor pal sgr =
    (if length (params sgr) = 0 then ([], 0, None)
     else case sgrNumber (params sgr ! 0) of
        Inl e \<Rightarrow> ([], 1, Some e)
      | Inr ex \<Rightarrow>
         if ex = Colors256 then
           (if length (params sgr) < 2 then ([], 1, None)
            else case parse256Color pal (params sgr ! 1) of
               (color, Some e) \<Rightarrow> (color, 1, Some e)
             | (color, None) \<Rightarrow> (color, 2, None))
         else if ex = ColorsRGB then
           (if length (params sgr) < 4 then ([], length (params sgr), None)
            else
              let rgb = (if colonF sgr \<and> params sgr ! 1 = [] \<and> length (params sgr) > 4
                         then take 3 (drop 2 (params sgr))
                         else take 3 (drop 1 (params sgr)))
              in case parseRGBColor (rgb ! 0) (rgb ! 1) (rgb ! 2) of
                 (color, Some e) \<Rightarrow> (color, 1, Some e)
               | (color, None) \<Rightarrow> (color, 4, None))
         else ([], 1, None))"

definition parseSGRColor :: "(int \<Rightarrow> gostring) \<Rightarrow> sgrParams \<Rightarrow> gostring \<times> nat \<times> err option" where
  "parseSGRColor pal sgr =
    (case convertSGRColor pal sgr of
       (color, inc, e) \<Rightarrow> (color, (if colonF sgr then 0 else inc), e))"

definition underLineStyle :: "OVStyle \<Rightarrow> gostring \<Rightarrow> OVStyle" where
  "underLineStyle s param =
    (case sgrNumber param of
       Inl e \<Rightarrow> s
     | Inr n \<Rightarrow>
        if n = 0 then s\<lparr>Underline := False, UnUnderline := True\<rparr>
        else s\<lparr>Underline := True, UnUnderline := False\<rparr>)"

text \<open>\<^verbatim>\<open>toSGRCode\<close>: the loop of \<^verbatim>\<open>parseSGR\<close> calls it below the length of the list
  only; beyond it the index expression panics.\<close>

definition toSGRCode :: "gostring list \<Rightarrow> nat \<Rightarrow> err + sgrParams" where
  "toSGRCode paramList index =
    (if index \<ge> length paramList then Inl PanicIndex
     else
       let colonLists = split_on 0x3A (paramList ! index) in
       case sgrNumber (hd colonLists) of
          Inl e \<Rightarrow> Inl ErrNotSuuport
        | Inr c \<Rightarrow>
           if length colonLists > 1
             then Inr \<lparr>code = c, params = tl colonLists, colonF = True\<rparr>
           else if (c = 38 \<or> c = 48 \<or> c = 58) \<and> length paramList > index + 1
             then Inr \<lparr>code = c, params = drop (index + 1) paramList, colonF = False\<rparr>
           else Inr \<lparr>code = c, params = [], colonF = False\<rparr>)"

section \<open>parseSGR\<close>

text \<open>
  The arms of the \<^verbatim>\<open>switch\<close> in \<^verbatim>\<open>parseSGR\<close> that neither return nor move the index:
  they only change the delta \<open>s\<close>. A code with no arm leaves \<open>s\<close> as it is.
\<close>

definition sgrAttribute :: "(int \<Rightarrow> gostring) \<Rightarrow> sgrParams \<Rightarrow> OVStyle \<Rightarrow> OVStyle" where
  "sgrAttribute pal sgr s =
    (let c = code sgr in
     if c = 0 then OVStyle0
     else if c = 1 then s\<lparr>Bold := True, UnBold := False\<rparr>
     else if c = 2 then s\<lparr>Dim := True, UnDim := False\<rparr>
     else if c = 3 then s\<lparr>Italic := True, UnItalic := False\<rparr>
     else if c = 4 then
       (if length (params sgr) > 0 \<and> params sgr ! 0 \<noteq> []
          then underLineStyle s (params sgr ! 0)
        else s\<lparr>Underline := True, UnUnderline := False\<rparr>)
     else if c = 5 then s\<lparr>Blink := True, UnBlink := False\<rparr>
     else if c = 6 then s\<lparr>Blink := True, UnBlink := False\<rparr>
     else if c = 7 then s\<lparr>Reverse := True, UnReverse := False\<rparr>
     else if c = 8 then s
     else if c = 9 then s\<lparr>StrikeThrough := True, UnStrikeThrough := False\<rparr>
     else if c = 21 then s\<lparr>Underline := True, UnUnderline := False\<rparr>
     else if c = 22 then s\<lparr>Bold := False, UnBold := True\<rparr>
     else if c = 23 then s\<lparr>Italic := False, UnItalic := True\<rparr>
     else if c = 24 then s\<lparr>Underline := False, UnUnderline := True\<rparr>
     else if c = 25 then s\<lparr>Blink := False, UnBlink := True\<rparr>
     else if c = 27 then s\<lparr>Reverse := False, UnReverse := True\<rparr>
     else if c = 28 then s
     else if c = 29 then s\<lparr>StrikeThrough := False, UnStrikeThrough := True\<rparr>
     else if 30 \<le> c \<and> c \<le> 37 then s\<lparr>Foreground_name := colorName pal (c - 30)\<rparr>
     else if c = 39 then s\<lparr>Foreground_name := str ''default''\<rparr>
     else if 40 \<le> c \<and> c \<le> 47 then s\<lparr>Background_name := colorName pal (c - 40)\<rparr>
     else if c = 49 then s\<lparr>Background_name := str ''default''\<rparr>
     else if c = 53 then s\<lparr>OverLine := True\<rparr>
     else if c = 55 then s\<lparr>UnOverLine := True\<rparr>
     else if c = 59 then s
     else if 73 \<le> c \<and> c \<le> 75 then s
     else if 90 \<le> c \<and> c \<le> 97 then s\<lparr>Foreground_name := colorName pal (c - 82)\<rparr>
     else if 100 \<le> c \<and> c \<le> 107 then s\<lparr>Background_name := colorName pal (c - 92)\<rparr>
     else s)"

text \<open>
  One pass through the body of the loop after \<^verbatim>\<open>toSGRCode\<close> has succeeded: either the
  function returns a delta, or the loop goes on with \<^verbatim>\<open>index += i\<close> and a new \<open>s\<close>.
  The three extended-colour arms are the ones that can return or move the index.
\<close>

datatype arm = Return OVStyle | Continue nat OVStyle

definition sgrArm :: "(int \<Rightarrow> gostring) \<Rightarrow> sgrParams \<Rightarrow> OVStyle \<Rightarrow> arm" where
  "sgrArm pal sgr s =
    (if code sgr = 38 then
       (case parseSGRColor pal sgr of
          (color, i, Some e) \<Rightarrow> Return OVStyle0
        | (color, i, None) \<Rightarrow> Continue i (s\<lparr>Foreground_name := color\<rparr>))
     else if code sgr = 48 then
       (case parseSGRColor pal sgr of
          (color, i, Some e) \<Rightarrow> Return OVStyle0
        | (color, i, None) \<Rightarrow> Continue i (s\<lparr>Background_name := color\<rparr>))
     else if code sgr = 58 then
       (case parseSGRColor pal sgr of
          (color, i, Some e) \<Rightarrow> Return s
        | (color, i, None) \<Rightarrow> Continue i s)
     else Continue 0 (sgrAttribute pal sgr s))"

function parseSGR_loop :: "(int \<Rightarrow> gostring) \<Rightarrow> gostring list \<Rightarrow> nat \<Rightarrow> OVStyle \<Rightarrow> OVStyle" where
  "parseSGR_loop pal paramList index s =
    (if index < length paramList then
       (case toSGRCode paramList index of
          Inl e \<Rightarrow> OVStyle0
        | Inr sgr \<Rightarrow>
           (case sgrArm pal sgr s of
              Return r \<Rightarrow> r
            | Continue i s' \<Rightarrow> parseSGR_loop pal paramList (index + i + 1) s'))
     else s)"
  by pat_completeness auto
termination
  by (relation "measure (\<lambda>(pal, paramList, index, s). length paramList - index)") auto

declare parseSGR_loop.simps [simp del]

definition parseSGR :: "(int \<Rightarrow> gostring) \<Rightarrow> gostring \<Rightarrow> OVStyle" where
  "parseSGR pal paramStr = parseSGR_loop pal (split_on 0x3B paramStr) 0 OVStyle0"

section \<open>The SGR cache and sgrStyle\<close>

text \<open>The process-wide \<^verbatim>\<open>sgrCache\<close> is passed in and returned.\<close>

type_synonym sgrCache = "gostring \<rightharpoonup> OVStyle"

definition sgrStyle ::
  "(int \<Rightarrow> gostring) \<Rightarrow> sgrCache \<Rightarrow> tstyle \<Rightarrow> gostring \<Rightarrow> tstyle \<times> sgrCache" where
  "sgrStyle pal cache style paramStr =
    (if paramStr = str ''0'' \<or> paramStr = [] \<or> paramStr = str '';''
       then (Normal StyleDefault, cache)
     else case cache paramStr of
        Some s \<Rightarrow> (applyStyle style s, cache)
      | None \<Rightarrow>
         let s = parseSGR pal paramStr in (applyStyle style s, cache(paramStr \<mapsto> s)))"

section \<open>The escape-sequence converter\<close>

datatype ansiState =
  ansiText | ansiEscape | ansiSubstring | ansiControlSequence | otherSequence
  | systemSequence | oscHyperLink | oscParameter | oscURL

definition csiParamStart :: rune where "csiParamStart = 0x20"
definition csiParamEnd :: rune where "csiParamEnd = 0x3F"

record escapeSequence =
  parameter :: gostring
  url_buf :: gostring
  state :: ansiState

definition newESConverter :: escapeSequence where
  "newESConverter = \<lparr>parameter = [], url_buf = [], state = ansiText\<rparr>"

text \<open>Of \<^verbatim>\<open>parseState\<close> the converter uses the rune under the cursor and the two styles.\<close>

record parseState =
  mainc :: rune
  style :: tstyle
  eolStyle :: tstyle

definition parseCSI ::
  "(int \<Rightarrow> gostring) \<Rightarrow> sgrCache \<Rightarrow> escapeSequence \<Rightarrow> parseState \<Rightarrow> rune
     \<Rightarrow> sgrCache \<times> escapeSequence \<times> parseState" where
  "parseCSI pal cache es st c =
    (if c = 0x6D then
       (case sgrStyle pal cache (style st) (parameter es) of
          (sty, cache') \<Rightarrow> (cache', es\<lparr>state := ansiText\<rparr>, st\<lparr>style := sty\<rparr>))
     else if c = 0x4B then
       (if parameter es = [] \<or> parameter es = str ''0''
          then (cache, es\<lparr>state := ansiText\<rparr>,
                st\<lparr>eolStyle := Background (eolStyle st) (bg (style st))\<rparr>)
        else (cache, es\<lparr>state := ansiText\<rparr>, st))
     else if 0x41 \<le> c \<and> c \<le> 0x54 then (cache, es\<lparr>state := ansiText\<rparr>, st)
     else if csiParamStart \<le> c \<and> c \<le> csiParamEnd
       then (cache, es\<lparr>parameter := parameter es @ [c]\<rparr>, st)
     else (cache, es\<lparr>state := ansiText\<rparr>, st))"

text \<open>
  \<^verbatim>\<open>paraseEscapeSequence\<close>: the first component of the result is the returned flag.
  The log line of the OSC state is not modelled.
\<close>

definition paraseEscapeSequence ::
  "(int \<Rightarrow> gostring) \<Rightarrow> sgrCache \<Rightarrow> escapeSequence \<Rightarrow> parseState
     \<Rightarrow> bool \<times> sgrCache \<times> escapeSequence \<times> parseState" where
  "paraseEscapeSequence pal cache es st =
    (let c = mainc st in
     case state es of
       ansiEscape \<Rightarrow>
        (if c = 0x5B then (True, cache, es\<lparr>parameter := [], state := ansiControlSequence\<rparr>, st)
         else if c = 0x63 then (True, cache, es\<lparr>state := ansiText\<rparr>, st\<lparr>style := StyleDefault\<rparr>)
         else if c = 0x5D then (True, cache, es\<lparr>state := systemSequence\<rparr>, st)
         else if c = 0x50 \<or> c = 0x58 \<or> c = 0x5E \<or> c = 0x5F
           then (True, cache, es\<lparr>state := ansiSubstring\<rparr>, st)
         else if c = 0x28 then (True, cache, es\<lparr>state := otherSequence\<rparr>, st)
         else (False, cache, es\<lparr>state := ansiText\<rparr>, st))
     | ansiSubstring \<Rightarrow>
        (if c = 0x1B then (True, cache, es\<lparr>state := ansiControlSequence\<rparr>, st)
         else (True, cache, es, st))
     | ansiControlSequence \<Rightarrow>
        (case parseCSI pal cache es st c of (cache', es', st') \<Rightarrow> (True, cache', es', st'))
     | otherSequence \<Rightarrow> (True, cache, es\<lparr>state := ansiEscape\<rparr>, st)
     | systemSequence \<Rightarrow>
        (if c = 0x38 then (True, cache, es\<lparr>state := oscHyperLink\<rparr>, st)
         else if c = 0x5C then (True, cache, es\<lparr>state := ansiText\<rparr>, st)
         else if c = 0x1B then (True, cache, es\<lparr>state := ansiControlSequence\<rparr>, st)
         else if c = 0x07 then (True, cache, es\<lparr>state := ansiText\<rparr>, st)
         else (True, cache, es, st))
     | oscHyperLink \<Rightarrow>
        (if c = 0x3B then (True, cache, es\<lparr>state := oscParameter\<rparr>, st)
         else (False, cache, es\<lparr>state := ansiText\<rparr>, st))
     | oscParameter \<Rightarrow>
        (if c \<noteq> 0x3B then (True, cache, es\<lparr>parameter := parameter es @ [c]\<rparr>, st)
         else
           let urlID = parameter es;
               st' = (if urlID \<noteq> [] then st\<lparr>style := UrlId (style st) urlID\<rparr> else st)
           in (True, cache, es\<lparr>parameter := [], state := oscURL\<rparr>, st'))
     | oscURL \<Rightarrow>
        (if c = 0x1B then
           (True, cache, es\<lparr>url_buf := [], state := systemSequence\<rparr>,
            st\<lparr>style := Url (style st) (url_buf es)\<rparr>)
         else if c = 0x07 then
           (True, cache, es\<lparr>url_buf := [], state := ansiText\<rparr>,
            st\<lparr>style := Url (style st) (url_buf es)\<rparr>)
         else (True, cache, es\<lparr>url_buf := url_buf es @ [c]\<rparr>, st))
     | ansiText \<Rightarrow> (False, cache, es, st))"

definition convert ::
  "(int \<Rightarrow> gostring) \<Rightarrow> sgrCache \<Rightarrow> escapeSequence \<Rightarrow> parseState
     \<Rightarrow> bool \<times> sgrCache \<times> escapeSequence \<times> parseState" where
  "convert pal cache es st =
    (if mainc st = 0x1B then (True, cache, es\<lparr>state := ansiEscape\<rparr>, st)
     else if mainc st = 0x0A then (False, cache, es, st)
     else paraseEscapeSequence pal cache es st)"

text \<open>
  Modelled from the spec: the loop of the line-content builder that feeds the converter
  is not among the sources. The spec: decode runes; feed each to the converter; a
  consumed rune produces no cell, any other rune is emitted with the current style.
  \<open>feed\<close> returns the runes that were not consumed, each with the style it is emitted
  in, and the state reached; cell widths, tabs and combining marks are left out.
\<close>

fun feed ::
  "(int \<Rightarrow> gostring) \<Rightarrow> sgrCache \<Rightarrow> escapeSequence \<Rightarrow> parseState \<Rightarrow> gostring
     \<Rightarrow> (rune \<times> tstyle) list \<times> sgrCache \<times> escapeSequence \<times> parseState" where
  "feed pal cache es st [] = ([], cache, es, st)"
| "feed pal cache es st (r # rs) =
    (case convert pal cache es (st\<lparr>mainc := r\<rparr>) of
       (consumed, cache', es', st') \<Rightarrow>
         (case feed pal cache' es' st' rs of
            (cells, final) \<Rightarrow> ((if consumed then [] else [(r, style st')]) @ cells, final)))"

definition initialState :: parseState where
  "initialState = \<lparr>mainc = 0, style = StyleDefault, eolStyle = StyleDefault\<rparr>"

definition cellsOf :: "(int \<Rightarrow> gostring) \<Rightarrow> gostring \<Rightarrow> (rune \<times> tstyle) list" where
  "cellsOf pal line = fst (feed pal Map.empty newESConverter initialState line)"

section \<open>Runs of the parser and of the cache\<close>

text \<open>
  The indices at which the loop of \<^verbatim>\<open>parseSGR\<close> calls \<^verbatim>\<open>toSGRCode\<close> when it starts at
  \<open>index\<close>: the elements of the parameter list that the parser reaches. A
  semicolon-form extended colour moves the index past the elements it has used; an
  error and the return of code 58 end the run. The step by which the index moves does
  not depend on the delta, so the zero delta is passed.
\<close>

function visits :: "(int \<Rightarrow> gostring) \<Rightarrow> gostring list \<Rightarrow> nat \<Rightarrow> nat list" where
  "visits pal paramList index =
    (if index < length paramList then
       index #
       (case toSGRCode paramList index of
          Inl e \<Rightarrow> []
        | Inr sgr \<Rightarrow>
           (case sgrArm pal sgr OVStyle0 of
              Return r \<Rightarrow> []
            | Continue i s' \<Rightarrow> visits pal paramList (index + i + 1)))
     else [])"
  by pat_completeness auto
termination
  by (relation "measure (\<lambda>(pal, paramList, index). length paramList - index)") auto

declare visits.simps [simp del]

text \<open>
  An element at which \<^verbatim>\<open>parseSGR\<close> gives up and returns the zero delta: \<^verbatim>\<open>toSGRCode\<close>
  fails on it, or it is an extended colour 38 or 48 and \<^verbatim>\<open>parseSGRColor\<close> returns an
  error.
\<close>

definition faulty :: "(int \<Rightarrow> gostring) \<Rightarrow> gostring list \<Rightarrow> nat \<Rightarrow> bool" where
  "faulty pal paramList j =
    (case toSGRCode paramList j of
       Inl e \<Rightarrow> True
     | Inr sgr \<Rightarrow> (code sgr = 38 \<or> code sgr = 48) \<and> snd (snd (parseSGRColor pal sgr)) \<noteq> None)"

text \<open>An element whose code, the part before the first colon, is a number other than
  38, 48 and 58: the loop reads it and steps to the next element.\<close>

definition plainElement :: "gostring \<Rightarrow> bool" where
  "plainElement e =
    (case sgrNumber (hd (split_on 0x3A e)) of
       Inl er \<Rightarrow> False
     | Inr c \<Rightarrow> c \<noteq> 38 \<and> c \<noteq> 48 \<and> c \<noteq> 58)"

text \<open>
  Only \<^verbatim>\<open>sgrStyle\<close> writes \<^verbatim>\<open>sgrCache\<close>. The caches a run of the program can hold are
  the ones left by a sequence of calls, each with its style and parameter string; the
  list has the latest call first.
\<close>

fun cacheAfter :: "(int \<Rightarrow> gostring) \<Rightarrow> (tstyle \<times> gostring) list \<Rightarrow> sgrCache" where
  "cacheAfter pal [] = Map.empty"
| "cacheAfter pal ((sty, p) # calls) = snd (sgrStyle pal (cacheAfter pal calls) sty p)"

text \<open>
  Modelled from the spec: the names of the palette colours come from the terminal
  library. The spec names palette colour 82 \<^verbatim>\<open>"82"\<close>: the decimal numeral of the
  index. \<open>paletteName\<close> is that naming, for the runs on concrete input.
\<close>

function decimal :: "nat \<Rightarrow> gostring" where
  "decimal n = (if n < 10 then [0x30 + n] else decimal (n div 10) @ [0x30 + n mod 10])"
  by pat_completeness auto
termination
  by (relation "measure id") auto

declare decimal.simps [simp del]

definition paletteName :: "int \<Rightarrow> gostring" where
  "paletteName n = decimal (nat n)"

section \<open>The viewport planner and the section analyzer\<close>

text \<open>\<^verbatim>\<open>stringWidth\<close> of input.go; \<open>rw\<close> is \<^verbatim>\<open>runewidth.RuneWidth\<close> of the width library.\<close>

definition stringWidth :: "(rune \<Rightarrow> nat) \<Rightarrow> gostring \<Rightarrow> nat" where
  "stringWidth rw s = foldl (\<lambda>w r. w + rw r + (if r = 0x09 then 2 else 0)) 0 s"

text \<open>
  Modelled from the spec: \<^verbatim>\<open>prepareDraw\<close> and the section analyzer
  (prepare\_draw.go) are not among the sources; only their tests are. What follows is
  the spec's viewport state and its steps 1 to 3 and 5 of the planner. The compiled
  section delimiter is a predicate on lines, absent when the pattern did not compile.
\<close>

record frame =
  wrapMode :: bool
  skipLines :: nat
  Header :: nat
  sectionHeader :: bool
  SectionHeaderNum :: nat
  SectionStartPosition :: int
  showGotoF :: bool
  topLN :: int
  jumpTargetLN :: int
  jumpTargetHeight :: int
  vHeight :: int
  width :: nat
  headerHeight :: int
  sectionHeaderHeight :: int
  sectionHeaderLN :: nat

type_synonym document = "gostring list"
type_synonym delimiter = "(gostring \<Rightarrow> bool) option"

text \<open>Modelled from the spec: a line number outside the document is treated as an empty
  line.\<close>

definition lineAt :: "document \<Rightarrow> nat \<Rightarrow> gostring" where
  "lineAt doc n = (if n < length doc then doc ! n else [])"

text \<open>Modelled from the spec: the rows of a wrapped line, \<open>ceil(stringWidth(line)/width)\<close>,
  for the positive widths that a terminal has.\<close>

definition rowsOf :: "(rune \<Rightarrow> nat) \<Rightarrow> nat \<Rightarrow> gostring \<Rightarrow> nat" where
  "rowsOf rw w line = (stringWidth rw line + w - 1) div w"

text \<open>Modelled from the spec: the height of \<open>n\<close> lines from line \<open>start\<close> is the sum
  of their wrapped heights in wrap mode and their number otherwise.\<close>

definition heightOf :: "(rune \<Rightarrow> nat) \<Rightarrow> document \<Rightarrow> frame \<Rightarrow> nat \<Rightarrow> nat \<Rightarrow> int" where
  "heightOf rw doc f start n =
    (if wrapMode f
       then int (sum_list (map (\<lambda>ln. rowsOf rw (width f) (lineAt doc ln)) [start ..< start + n]))
     else int n)"

text \<open>Modelled from the spec: step 1, the header rows are the lines
  \<open>[skipLines, skipLines + Header)\<close>.\<close>

definition resolveHeader :: "(rune \<Rightarrow> nat) \<Rightarrow> document \<Rightarrow> frame \<Rightarrow> frame" where
  "resolveHeader rw doc f = f\<lparr>headerHeight := heightOf rw doc f (skipLines f) (Header f)\<rparr>"

text \<open>Modelled from the spec: the section header line is the greatest line number up to
  \<open>topLN\<close> that matched the delimiter, or 0 if there is none.\<close>

definition findSectionHeaderLN :: "(gostring \<Rightarrow> bool) \<Rightarrow> document \<Rightarrow> int \<Rightarrow> nat" where
  "findSectionHeaderLN r doc topLine =
    (case filter (\<lambda>n. r (lineAt doc n)) (rev [0 ..< nat (topLine + 1)]) of
       [] \<Rightarrow> 0
     | n # _ \<Rightarrow> n)"

text \<open>Modelled from the spec: step 2, only with \<open>sectionHeader\<close>; height 0 when the
  delimiter did not compile or matches no line of the document.\<close>

definition resolveSectionHeader ::
  "(rune \<Rightarrow> nat) \<Rightarrow> document \<Rightarrow> delimiter \<Rightarrow> frame \<Rightarrow> frame" where
  "resolveSectionHeader rw doc R f =
    (if \<not> sectionHeader f then f\<lparr>sectionHeaderHeight := 0\<rparr>
     else case R of
        None \<Rightarrow> f\<lparr>sectionHeaderHeight := 0\<rparr>
      | Some r \<Rightarrow>
         if \<not> list_ex r doc then f\<lparr>sectionHeaderHeight := 0\<rparr>
         else
           let ln = findSectionHeaderLN r doc (topLN f)
           in f\<lparr>sectionHeaderLN := ln,
                sectionHeaderHeight := heightOf rw doc f ln (SectionHeaderNum f)\<rparr>)"

text \<open>Modelled from the spec: step 3, with
  \<open>available = vHeight - headerHeight - sectionHeaderHeight - jumpTargetHeight\<close>, the
  requirement is \<open>topLN \<ge> jumpTargetLN - available\<close>; if it is violated,
  \<open>topLN = max(0, jumpTargetLN - available)\<close>; then \<open>showGotoF\<close> is cleared.\<close>

definition available :: "frame \<Rightarrow> int" where
  "available f = vHeight f - headerHeight f - sectionHeaderHeight f - jumpTargetHeight f"

definition gotoClamp :: "frame \<Rightarrow> frame" where
  "gotoClamp f =
    (if showGotoF f then
       f\<lparr>topLN := (if topLN f < jumpTargetLN f - available f
                    then max 0 (jumpTargetLN f - available f) else topLN f),
         showGotoF := False\<rparr>
     else f)"

text \<open>Modelled from the spec: the frame driver runs step 1, step 2 and step 3 in this
  order.\<close>

definition prepareDraw :: "(rune \<Rightarrow> nat) \<Rightarrow> document \<Rightarrow> delimiter \<Rightarrow> frame \<Rightarrow> frame" where
  "prepareDraw rw doc R f = gotoClamp (resolveSectionHeader rw doc R (resolveHeader rw doc f))"

text \<open>
  Modelled from the spec: the section analyzer. A line starts a section when it lies
  \<open>SectionStartPosition\<close> lines after a line of the document that matches the
  delimiter. The analyzer walks the line numbers of the rows in order with the counters
  \<open>(curSection, curNm)\<close>, which start at \<open>(0, 0)\<close> for each frame: at a section start
  \<open>curSection\<close> is incremented and \<open>curNm\<close> becomes 1, at any other line \<open>curNm\<close> is
  incremented. Each row gets \<open>(LN, section, sectionNm)\<close>.
\<close>

definition isSectionStart :: "document \<Rightarrow> delimiter \<Rightarrow> int \<Rightarrow> nat \<Rightarrow> bool" where
  "isSectionStart doc R ssp ln =
    (case R of
       None \<Rightarrow> False
     | Some r \<Rightarrow>
        let m = int ln - ssp in 0 \<le> m \<and> nat m < length doc \<and> r (doc ! nat m))"

fun sectionWalk :: "(nat \<Rightarrow> bool) \<Rightarrow> nat \<Rightarrow> nat \<Rightarrow> nat list \<Rightarrow> (nat \<times> nat \<times> nat) list" where
  "sectionWalk isStart curSection curNm [] = []"
| "sectionWalk isStart curSection curNm (ln # lns) =
    (if isStart ln
       then (ln, curSection + 1, 1) # sectionWalk isStart (curSection + 1) 1 lns
     else (ln, curSection, curNm + 1) # sectionWalk isStart curSection (curNm + 1) lns)"

definition sectionNum :: "document \<Rightarrow> delimiter \<Rightarrow> int \<Rightarrow> nat list \<Rightarrow> (nat \<times> nat \<times> nat) list" where
  "sectionNum doc R ssp lns = sectionWalk (isSectionStart doc R ssp) 0 0 lns"

text \<open>The delimiter \<^verbatim>\<open>"^-"\<close> of the tests holds of the lines that begin with \<open>-\<close>.\<close>

definition beginsWith :: "rune \<Rightarrow> gostring \<Rightarrow> bool" where
  "beginsWith c line = (case line of [] \<Rightarrow> False | x # _ \<Rightarrow> x = c)"

text \<open>
  The files of the tests are not among the sources. \<open>section2Like\<close> is a document with
  the shape that the expected annotation of \<^verbatim>\<open>section2.txt\<close> shows: 24 lines, of which
  lines 1, 8, 15 and 22 begin with \<open>-\<close>. \<open>s5Expected\<close> is that annotation,
  \<open>(LN, section, sectionNm)\<close> for the rows 0 to 23.
\<close>

definition sectionBlock :: document where
  "sectionBlock = str ''-- section'' # replicate 6 (str ''text'')"

definition section2Like :: document where
  "section2Like = str ''head'' # sectionBlock @ sectionBlock @ sectionBlock
                    @ [str ''-- section'', str ''text'']"

definition s5Expected :: "(nat \<times> nat \<times> nat) list" where
  "s5Expected =
    [(0, 0, 1),
     (1, 1, 1), (2, 1, 2), (3, 1, 3), (4, 1, 4), (5, 1, 5), (6, 1, 6), (7, 1, 7),
     (8, 2, 1), (9, 2, 2), (10, 2, 3), (11, 2, 4), (12, 2, 5), (13, 2, 6), (14, 2, 7),
     (15, 3, 1), (16, 3, 2), (17, 3, 3), (18, 3, 4), (19, 3, 5), (20, 3, 6), (21, 3, 7),
     (22, 4, 1), (23, 4, 2)]"

text \<open>A width function for plain text, every rune one column wide.\<close>

definition unitWidth :: "rune \<Rightarrow> nat" where
  "unitWidth r = 1"


definition s2Frame :: frame where
  "s2Frame =
    \<lparr>wrapMode = True, skipLines = 0, Header = 3, sectionHeader = True, SectionHeaderNum = 3,
     SectionStartPosition = 0, showGotoF = False, topLN = 10, jumpTargetLN = 0,
     jumpTargetHeight = 0, vHeight = 24, width = 80, headerHeight = 0,
     sectionHeaderHeight = 0, sectionHeaderLN = 0\<rparr>"

section \<open>Properties of the converter\<close>

text \<open>
  C10. In every state of the converter, and whatever the parameter and URL buffers hold,
  the rune \<open>0x1B\<close> is consumed and moves the converter to the Esc state without touching
  a style, a buffer or the cache: \<^verbatim>\<open>convert\<close> answers before the state-specific code of
  \<^verbatim>\<open>paraseEscapeSequence\<close> is reached. The rune \<open>0x0A\<close> is never consumed and changes
  nothing.
\<close>

theorem convert_escape_newline_every_state:
  "convert pal cache es (st\<lparr>mainc := 0x1B\<rparr>)
     = (True, cache, es\<lparr>state := ansiEscape\<rparr>, st\<lparr>mainc := 0x1B\<rparr>)
   \<and> convert pal cache es (st\<lparr>mainc := 0x0A\<rparr>) = (False, cache, es, st\<lparr>mainc := 0x0A\<rparr>)"
  by (simp add: convert_def)

text \<open>
  C7. Whatever the style before and whatever the cache holds, \<^verbatim>\<open>sgrStyle\<close> on the
  parameter strings \<^verbatim>\<open>"0"\<close>, \<^verbatim>\<open>""\<close> and \<^verbatim>\<open>";"\<close> returns the default style with normal
  attributes: default colours, no attribute, no hyperlink. The cache is not touched.
\<close>

theorem sgrStyle_reset:
  "sgrStyle pal cache sty (str ''0'') = (StyleDefault, cache)
   \<and> sgrStyle pal cache sty [] = (StyleDefault, cache)
   \<and> sgrStyle pal cache sty (str '';'') = (StyleDefault, cache)
   \<and> StyleDefault = \<lparr>fg = ColorDefault, bg = ColorDefault, attrs = {}, url = [], urlId = []\<rparr>
   \<and> Normal StyleDefault = StyleDefault"
  by (simp add: sgrStyle_def Normal_def StyleDefault_def)

text \<open>
  C6. In the CSI state the final byte \<open>K\<close> with an empty parameter buffer or with
  \<^verbatim>\<open>"0"\<close> puts the background of the current style into the end-of-line style and
  changes nothing else of the two styles; \<open>K\<close> with any other parameter leaves both
  styles as they are; so do the other finals from \<open>A\<close> to \<open>T\<close>; and every final byte
  from \<open>0x40\<close> to \<open>0x7E\<close> is consumed and returns the converter to the Text state.
\<close>

theorem csi_erase_in_line:
  assumes "state es = ansiControlSequence"
  shows "(parameter es = [] \<or> parameter es = str ''0'' \<longrightarrow>
            convert pal cache es (st\<lparr>mainc := 0x4B\<rparr>)
              = (True, cache, es\<lparr>state := ansiText\<rparr>,
                 st\<lparr>mainc := 0x4B, eolStyle := (eolStyle st)\<lparr>bg := bg (style st)\<rparr>\<rparr>))
       \<and> (parameter es \<noteq> [] \<and> parameter es \<noteq> str ''0'' \<longrightarrow>
            convert pal cache es (st\<lparr>mainc := 0x4B\<rparr>)
              = (True, cache, es\<lparr>state := ansiText\<rparr>, st\<lparr>mainc := 0x4B\<rparr>))
       \<and> (0x41 \<le> c \<and> c \<le> 0x54 \<and> c \<noteq> 0x4B \<longrightarrow>
            convert pal cache es (st\<lparr>mainc := c\<rparr>)
              = (True, cache, es\<lparr>state := ansiText\<rparr>, st\<lparr>mainc := c\<rparr>))
       \<and> (0x40 \<le> c \<and> c \<le> 0x7E \<longrightarrow>
            fst (convert pal cache es (st\<lparr>mainc := c\<rparr>))
            \<and> state (fst (snd (snd (convert pal cache es (st\<lparr>mainc := c\<rparr>))))) = ansiText)"
  using assms
  by (auto simp: convert_def paraseEscapeSequence_def parseCSI_def Background_def
        csiParamStart_def csiParamEnd_def split: prod.splits)

theorem csi_erase_in_line_witness:
  "state \<lparr>parameter = [], url_buf = [], state = ansiControlSequence\<rparr> = ansiControlSequence
   \<and> convert (\<lambda>n. []) Map.empty \<lparr>parameter = [], url_buf = [], state = ansiControlSequence\<rparr>
        (initialState\<lparr>style := StyleDefault\<lparr>bg := str ''red''\<rparr>, mainc := 0x4B\<rparr>)
      = (True, Map.empty, \<lparr>parameter = [], url_buf = [], state = ansiText\<rparr>,
         initialState\<lparr>style := StyleDefault\<lparr>bg := str ''red''\<rparr>, mainc := 0x4B,
                        eolStyle := StyleDefault\<lparr>bg := str ''red''\<rparr>\<rparr>)
   \<and> convert (\<lambda>n. []) Map.empty \<lparr>parameter = str ''1'', url_buf = [], state = ansiControlSequence\<rparr>
        (initialState\<lparr>style := StyleDefault\<lparr>bg := str ''red''\<rparr>, mainc := 0x4B\<rparr>)
      = (True, Map.empty, \<lparr>parameter = str ''1'', url_buf = [], state = ansiText\<rparr>,
         initialState\<lparr>style := StyleDefault\<lparr>bg := str ''red''\<rparr>, mainc := 0x4B\<rparr>)
   \<and> (0x41::nat) \<le> 0x48 \<and> (0x48::nat) \<le> 0x54 \<and> (0x48::nat) \<noteq> 0x4B
   \<and> convert (\<lambda>n. []) Map.empty \<lparr>parameter = str ''1'', url_buf = [], state = ansiControlSequence\<rparr>
        (initialState\<lparr>style := StyleDefault\<lparr>bg := str ''red''\<rparr>, mainc := 0x48\<rparr>)
      = (True, Map.empty, \<lparr>parameter = str ''1'', url_buf = [], state = ansiText\<rparr>,
         initialState\<lparr>style := StyleDefault\<lparr>bg := str ''red''\<rparr>, mainc := 0x48\<rparr>)"
  using csi_erase_in_line [where es = "\<lparr>parameter = [], url_buf = [], state = ansiControlSequence\<rparr>"
          and c = "0x48" and pal = "\<lambda>n. []" and cache = Map.empty
          and st = "initialState\<lparr>style := StyleDefault\<lparr>bg := str ''red''\<rparr>\<rparr>"]
        csi_erase_in_line [where es = "\<lparr>parameter = str ''1'', url_buf = [], state = ansiControlSequence\<rparr>"
          and c = "0x48" and pal = "\<lambda>n. []" and cache = Map.empty
          and st = "initialState\<lparr>style := StyleDefault\<lparr>bg := str ''red''\<rparr>\<rparr>"]
  by (simp add: initialState_def)

section \<open>The colon form of the extended colours\<close>

lemmas num_defs = sgrNumber_def isDigit_def Atoi_def digitsValue_def maxInt_def

lemmas parse_defs = parseSGR_def parseSGR_loop.simps toSGRCode_def sgrArm_def sgrAttribute_def
  parseSGRColor_def convertSGRColor_def parse256Color_def parseRGBColor_def colorName_def
  Colors256_def ColorsRGB_def isErr_def numOf_def hex02_def hexDigit_def Let_def

lemma sgrNumber_38: "sgrNumber (str ''38'') = Inr 38"
  by (simp add: num_defs)

lemma sgrNumber_58: "sgrNumber (str ''58'') = Inr 58"
  by (simp add: num_defs)

lemma parse_ex: "parseSGR pal (str ''38:5:82'') = OVStyle0\<lparr>Foreground_name := pal 82\<rparr>"
  by (simp add: parse_defs num_defs)

lemma parse_ex_next:
  "parseSGR pal (str ''38:5:82;1'') = OVStyle0\<lparr>Foreground_name := pal 82, Bold := True\<rparr>"
  by (simp add: parse_defs num_defs OVStyle0_def)

lemma parse_ex_58: "parseSGR pal (str ''58:5:1;1'') = OVStyle0\<lparr>Bold := True\<rparr>"
  by (simp add: parse_defs num_defs OVStyle0_def)

lemma parse_ex_rgb: "parseSGR pal (str ''48:2:1:2:3;1'')
     = OVStyle0\<lparr>Background_name := str ''#010203'', Bold := True\<rparr>"
  by (simp add: parse_defs num_defs OVStyle0_def)

lemma parse_ex_rgb2: "parseSGR pal (str ''38:2::1:2:3;1'')
     = OVStyle0\<lparr>Foreground_name := str ''#010203'', Bold := True\<rparr>"
  by (simp add: parse_defs num_defs OVStyle0_def)

lemma cells_ex: "cellsOf pal (0x1B # str ''[38:5:82mX'') = [(0x58, StyleDefault\<lparr>fg := pal 82\<rparr>)]"
  by (simp add: cellsOf_def convert_def paraseEscapeSequence_def parseCSI_def newESConverter_def
      initialState_def csiParamStart_def csiParamEnd_def sgrStyle_def parse_ex [simplified]
      applyStyle_def OVStyle0_def Foreground_def StyleDefault_def ColorDefault_def Let_def)

lemma toSGRCode_colon:
  "index < length paramList \<Longrightarrow> 1 < length (split_on 0x3A (paramList ! index)) \<Longrightarrow>
   sgrNumber (hd (split_on 0x3A (paramList ! index))) = Inr c \<Longrightarrow>
   toSGRCode paramList index
     = Inr \<lparr>code = c, params = tl (split_on 0x3A (paramList ! index)), colonF = True\<rparr>"
  by (simp add: toSGRCode_def Let_def)

lemma parseSGRColor_colon:
  "colonF sgr \<Longrightarrow> parseSGRColor pal sgr
     = (fst (convertSGRColor pal sgr), 0, snd (snd (convertSGRColor pal sgr)))"
  by (simp add: parseSGRColor_def split: prod.splits)

lemma loop_colon_fg:
  "index < length paramList \<Longrightarrow> toSGRCode paramList index = Inr sgr \<Longrightarrow> colonF sgr \<Longrightarrow>
   code sgr = 38 \<Longrightarrow> convertSGRColor pal sgr = (color, inc, None) \<Longrightarrow>
   parseSGR_loop pal paramList index s
     = parseSGR_loop pal paramList (index + 1) (s\<lparr>Foreground_name := color\<rparr>)"
  by (subst parseSGR_loop.simps) (simp add: sgrArm_def parseSGRColor_def)

lemma loop_colon_bg:
  "index < length paramList \<Longrightarrow> toSGRCode paramList index = Inr sgr \<Longrightarrow> colonF sgr \<Longrightarrow>
   code sgr = 48 \<Longrightarrow> convertSGRColor pal sgr = (color, inc, None) \<Longrightarrow>
   parseSGR_loop pal paramList index s
     = parseSGR_loop pal paramList (index + 1) (s\<lparr>Background_name := color\<rparr>)"
  by (subst parseSGR_loop.simps) (simp add: sgrArm_def parseSGRColor_def)

lemma loop_colon_ul:
  "index < length paramList \<Longrightarrow> toSGRCode paramList index = Inr sgr \<Longrightarrow> colonF sgr \<Longrightarrow>
   code sgr = 58 \<Longrightarrow> convertSGRColor pal sgr = (color, inc, None) \<Longrightarrow>
   parseSGR_loop pal paramList index s = parseSGR_loop pal paramList (index + 1) s"
  by (subst parseSGR_loop.simps) (simp add: sgrArm_def parseSGRColor_def)

lemma loop_colon_error:
  "index < length paramList \<Longrightarrow> toSGRCode paramList index = Inr sgr \<Longrightarrow> colonF sgr \<Longrightarrow>
   convertSGRColor pal sgr = (color, inc, Some e) \<Longrightarrow>
   parseSGR_loop pal paramList index s
     = (if code sgr = 38 \<or> code sgr = 48 then OVStyle0
        else if code sgr = 58 then s
        else parseSGR_loop pal paramList (index + 1) (sgrAttribute pal sgr s))"
  by (subst parseSGR_loop.simps) (simp add: sgrArm_def parseSGRColor_def)

text \<open>
  C5. An element written with colons is parsed from its own colon-split tail:
  \<^verbatim>\<open>toSGRCode\<close> gives the tail as the parameters and sets \<open>colonF\<close>; with \<open>colonF\<close> the
  increment that \<^verbatim>\<open>parseSGRColor\<close> returns is 0. So after a colon-form 38, 48 or 58
  whose colour parses, the loop goes on at the very next element of the list, with the
  colour taken from that tail (58 changes nothing); when the colour does not parse, 38
  and 48 return the zero delta and 58 returns the delta so far. The parameter string
  \<^verbatim>\<open>38:5:82\<close> parses to the delta whose only entry is the foreground named after palette
  colour 82; in \<^verbatim>\<open>38:5:82;1\<close>, \<^verbatim>\<open>58:5:1;1\<close>, \<^verbatim>\<open>48:2:1:2:3;1\<close> and \<^verbatim>\<open>38:2::1:2:3;1\<close> the
  element after the colon form is still read, as bold; and the input
  \<^verbatim>\<open>ESC [ 3 8 : 5 : 8 2 m X\<close> produces exactly one cell, \<open>X\<close>, with that foreground.
\<close>

theorem colon_form_extended_color:
  "(index < length paramList \<and> 1 < length (split_on 0x3A (paramList ! index))
      \<and> sgrNumber (hd (split_on 0x3A (paramList ! index))) = Inr c
     \<longrightarrow> toSGRCode paramList index
          = Inr \<lparr>code = c, params = tl (split_on 0x3A (paramList ! index)), colonF = True\<rparr>)
   \<and> (colonF sgr \<longrightarrow> fst (snd (parseSGRColor pal sgr)) = 0)
   \<and> (index < length paramList \<and> toSGRCode paramList index = Inr sgr \<and> colonF sgr
        \<and> code sgr = 38 \<and> convertSGRColor pal sgr = (color, inc, None)
     \<longrightarrow> parseSGR_loop pal paramList index s
          = parseSGR_loop pal paramList (index + 1) (s\<lparr>Foreground_name := color\<rparr>))
   \<and> (index < length paramList \<and> toSGRCode paramList index = Inr sgr \<and> colonF sgr
        \<and> code sgr = 48 \<and> convertSGRColor pal sgr = (color, inc, None)
     \<longrightarrow> parseSGR_loop pal paramList index s
          = parseSGR_loop pal paramList (index + 1) (s\<lparr>Background_name := color\<rparr>))
   \<and> (index < length paramList \<and> toSGRCode paramList index = Inr sgr \<and> colonF sgr
        \<and> code sgr = 58 \<and> convertSGRColor pal sgr = (color, inc, None)
     \<longrightarrow> parseSGR_loop pal paramList index s = parseSGR_loop pal paramList (index + 1) s)
   \<and> (index < length paramList \<and> toSGRCode paramList index = Inr sgr \<and> colonF sgr
        \<and> convertSGRColor pal sgr = (color, inc, Some e)
     \<longrightarrow> parseSGR_loop pal paramList index s
          = (if code sgr = 38 \<or> code sgr = 48 then OVStyle0
             else if code sgr = 58 then s
             else parseSGR_loop pal paramList (index + 1) (sgrAttribute pal sgr s)))
   \<and> parseSGR pal (str ''38:5:82'') = OVStyle0\<lparr>Foreground_name := pal 82\<rparr>
   \<and> parseSGR pal (str ''38:5:82;1'') = OVStyle0\<lparr>Foreground_name := pal 82, Bold := True\<rparr>
   \<and> parseSGR pal (str ''58:5:1;1'') = OVStyle0\<lparr>Bold := True\<rparr>
   \<and> parseSGR pal (str ''48:2:1:2:3;1'')
        = OVStyle0\<lparr>Background_name := str ''#010203'', Bold := True\<rparr>
   \<and> parseSGR pal (str ''38:2::1:2:3;1'')
        = OVStyle0\<lparr>Foreground_name := str ''#010203'', Bold := True\<rparr>
   \<and> cellsOf pal (0x1B # str ''[38:5:82mX'') = [(0x58, StyleDefault\<lparr>fg := pal 82\<rparr>)]"
  using toSGRCode_colon [of index paramList c] parseSGRColor_colon [of sgr pal]
    loop_colon_fg [of index paramList sgr pal color inc s]
    loop_colon_bg [of index paramList sgr pal color inc s]
    loop_colon_ul [of index paramList sgr pal color inc s]
    loop_colon_error [of index paramList sgr pal color inc e s]
    parse_ex [of pal] parse_ex_next [of pal] parse_ex_58 [of pal] parse_ex_rgb [of pal]
    parse_ex_rgb2 [of pal] cells_ex [of pal]
  by simp

lemma conv_ex:
  "convertSGRColor paletteName \<lparr>code = 38, params = [str ''5'', str ''82''], colonF = True\<rparr>
     = (str ''82'', 2, None)"
  by (simp add: convertSGRColor_def parse256Color_def colorName_def Colors256_def num_defs
        paletteName_def decimal.simps)

lemma conv_ex_58:
  "convertSGRColor paletteName \<lparr>code = 58, params = [str ''5'', str ''1''], colonF = True\<rparr>
     = (str ''1'', 2, None)"
  by (simp add: convertSGRColor_def parse256Color_def colorName_def Colors256_def num_defs
        paletteName_def decimal.simps)

lemma conv_ex_err:
  "convertSGRColor paletteName \<lparr>code = 58, params = [str ''5'', str ''x''], colonF = True\<rparr>
     = ([], 1, Some ErrNotSuuport)"
  by (simp add: convertSGRColor_def parse256Color_def colorName_def Colors256_def num_defs)

theorem colon_form_extended_color_witness:
  "(0::nat) < length [str ''38:5:82'', str ''1'']
   \<and> 1 < length (split_on 0x3A ([str ''38:5:82'', str ''1''] ! 0))
   \<and> sgrNumber (hd (split_on 0x3A ([str ''38:5:82'', str ''1''] ! 0))) = Inr 38
   \<and> toSGRCode [str ''38:5:82'', str ''1''] 0
        = Inr \<lparr>code = 38, params = [str ''5'', str ''82''], colonF = True\<rparr>
   \<and> convertSGRColor paletteName \<lparr>code = 38, params = [str ''5'', str ''82''], colonF = True\<rparr>
        = (str ''82'', 2, None)
   \<and> fst (snd (parseSGRColor paletteName
              \<lparr>code = 38, params = [str ''5'', str ''82''], colonF = True\<rparr>)) = 0
   \<and> parseSGR_loop paletteName [str ''38:5:82'', str ''1''] 0 OVStyle0
        = parseSGR_loop paletteName [str ''38:5:82'', str ''1''] 1
            (OVStyle0\<lparr>Foreground_name := str ''82''\<rparr>)
   \<and> toSGRCode [str ''58:5:1'', str ''1''] 0
        = Inr \<lparr>code = 58, params = [str ''5'', str ''1''], colonF = True\<rparr>
   \<and> convertSGRColor paletteName \<lparr>code = 58, params = [str ''5'', str ''1''], colonF = True\<rparr>
        = (str ''1'', 2, None)
   \<and> parseSGR_loop paletteName [str ''58:5:1'', str ''1''] 0 OVStyle0
        = parseSGR_loop paletteName [str ''58:5:1'', str ''1''] 1 OVStyle0
   \<and> toSGRCode [str ''58:5:x'', str ''1''] 0
        = Inr \<lparr>code = 58, params = [str ''5'', str ''x''], colonF = True\<rparr>
   \<and> convertSGRColor paletteName \<lparr>code = 58, params = [str ''5'', str ''x''], colonF = True\<rparr>
        = ([], 1, Some ErrNotSuuport)
   \<and> parseSGR_loop paletteName [str ''58:5:x'', str ''1''] 0 (OVStyle0\<lparr>Italic := True\<rparr>)
        = OVStyle0\<lparr>Italic := True\<rparr>"
  using colon_form_extended_color [where index = 0 and paramList = "[str ''38:5:82'', str ''1'']"
      and c = 38 and sgr = "\<lparr>code = 38, params = [str ''5'', str ''82''], colonF = True\<rparr>"
      and pal = paletteName and color = "str ''82''" and inc = 2 and s = OVStyle0]
    colon_form_extended_color [where index = 0 and paramList = "[str ''58:5:1'', str ''1'']"
      and c = 58 and sgr = "\<lparr>code = 58, params = [str ''5'', str ''1''], colonF = True\<rparr>"
      and pal = paletteName and color = "str ''1''" and inc = 2 and s = OVStyle0]
    colon_form_extended_color [where index = 0 and paramList = "[str ''58:5:x'', str ''1'']"
      and c = 58 and sgr = "\<lparr>code = 58, params = [str ''5'', str ''x''], colonF = True\<rparr>"
      and pal = paletteName and color = "[]" and inc = 1 and e = ErrNotSuuport
      and s = "OVStyle0\<lparr>Italic := True\<rparr>"]
    conv_ex conv_ex_58 conv_ex_err sgrNumber_38 sgrNumber_58
  by simp

section \<open>The SGR cache\<close>

lemma cacheAfter_coherent:
  "cacheAfter pal calls q = Some v \<Longrightarrow> v = parseSGR pal q"
proof (induction calls arbitrary: q v)
  case Nil
  then show ?case by simp
next
  case (Cons call calls)
  obtain sty p where call: "call = (sty, p)" by (cases call)
  show ?case
  proof (cases "cacheAfter pal calls p")
    case None
    with Cons.prems call Cons.IH show ?thesis
      by (auto simp: sgrStyle_def Let_def split: if_splits)
  next
    case (Some w)
    with Cons.prems call Cons.IH show ?thesis
      by (auto simp: sgrStyle_def Let_def split: if_splits)
  qed
qed

lemma sgrStyle_cacheAfter:
  assumes "p \<noteq> str ''0''" "p \<noteq> []" "p \<noteq> str '';''"
  shows "sgrStyle pal (cacheAfter pal calls) sty p
           = (applyStyle sty (parseSGR pal p), (cacheAfter pal calls)(p \<mapsto> parseSGR pal p))"
proof (cases "cacheAfter pal calls p")
  case None
  with assms show ?thesis by (simp add: sgrStyle_def Let_def)
next
  case (Some v)
  then have v: "v = parseSGR pal p" by (rule cacheAfter_coherent)
  have "(cacheAfter pal calls)(p \<mapsto> parseSGR pal p) = cacheAfter pal calls"
    using Some v by (auto simp: fun_upd_idem_iff)
  with assms Some v show ?thesis by (simp add: sgrStyle_def)
qed

text \<open>
  C9. Let the cache be the one left by any sequence of earlier calls of \<^verbatim>\<open>sgrStyle\<close>, and
  let \<open>p\<close> be none of \<^verbatim>\<open>"0"\<close>, \<^verbatim>\<open>""\<close>, \<^verbatim>\<open>";"\<close>. Then \<^verbatim>\<open>sgrStyle\<close> returns the
  style with the freshly parsed delta applied, whether \<open>p\<close> is in the cache or has
  been taken out of it; afterwards the cache holds the parsed delta at \<open>p\<close>; an entry
  found at \<open>p\<close> is that delta already and the hit leaves the cache as it is; storing the
  delta once more changes neither the cache nor the result of any later call.
\<close>

theorem sgrStyle_cache_transparent:
  "p \<noteq> str ''0'' \<and> p \<noteq> [] \<and> p \<noteq> str '';'' \<longrightarrow>
     fst (sgrStyle pal (cacheAfter pal calls) sty p) = applyStyle sty (parseSGR pal p)
   \<and> fst (sgrStyle pal (cacheAfter pal calls) sty p)
       = fst (sgrStyle pal ((cacheAfter pal calls)(p := None)) sty p)
   \<and> snd (sgrStyle pal (cacheAfter pal calls) sty p) p = Some (parseSGR pal p)
   \<and> (cacheAfter pal calls p \<noteq> None \<longrightarrow>
        cacheAfter pal calls p = Some (parseSGR pal p)
        \<and> snd (sgrStyle pal (cacheAfter pal calls) sty p) = cacheAfter pal calls)
   \<and> (snd (sgrStyle pal (cacheAfter pal calls) sty p))(p \<mapsto> parseSGR pal p)
       = snd (sgrStyle pal (cacheAfter pal calls) sty p)
   \<and> sgrStyle pal ((snd (sgrStyle pal (cacheAfter pal calls) sty p))(p \<mapsto> parseSGR pal p)) sty' q
       = sgrStyle pal (snd (sgrStyle pal (cacheAfter pal calls) sty p)) sty' q"
proof (intro impI)
  assume a: "p \<noteq> str ''0'' \<and> p \<noteq> [] \<and> p \<noteq> str '';''"
  then have eq: "sgrStyle pal (cacheAfter pal calls) sty p
           = (applyStyle sty (parseSGR pal p), (cacheAfter pal calls)(p \<mapsto> parseSGR pal p))"
    using sgrStyle_cacheAfter [of p pal calls sty] by simp
  have miss: "fst (sgrStyle pal ((cacheAfter pal calls)(p := None)) sty p)
           = applyStyle sty (parseSGR pal p)"
    using a by (simp add: sgrStyle_def Let_def)
  have hit: "cacheAfter pal calls p \<noteq> None \<longrightarrow>
        cacheAfter pal calls p = Some (parseSGR pal p)
        \<and> (cacheAfter pal calls)(p \<mapsto> parseSGR pal p) = cacheAfter pal calls"
    using cacheAfter_coherent [of pal calls p] by (auto simp: fun_upd_idem_iff)
  show "fst (sgrStyle pal (cacheAfter pal calls) sty p) = applyStyle sty (parseSGR pal p)
   \<and> fst (sgrStyle pal (cacheAfter pal calls) sty p)
       = fst (sgrStyle pal ((cacheAfter pal calls)(p := None)) sty p)
   \<and> snd (sgrStyle pal (cacheAfter pal calls) sty p) p = Some (parseSGR pal p)
   \<and> (cacheAfter pal calls p \<noteq> None \<longrightarrow>
        cacheAfter pal calls p = Some (parseSGR pal p)
        \<and> snd (sgrStyle pal (cacheAfter pal calls) sty p) = cacheAfter pal calls)
   \<and> (snd (sgrStyle pal (cacheAfter pal calls) sty p))(p \<mapsto> parseSGR pal p)
       = snd (sgrStyle pal (cacheAfter pal calls) sty p)
   \<and> sgrStyle pal ((snd (sgrStyle pal (cacheAfter pal calls) sty p))(p \<mapsto> parseSGR pal p)) sty' q
       = sgrStyle pal (snd (sgrStyle pal (cacheAfter pal calls) sty p)) sty' q"
    using miss hit by (simp add: eq)
qed

lemma parseSGR_1: "parseSGR pal (str ''1'') = OVStyle0\<lparr>Bold := True\<rparr>"
  by (simp add: parseSGR_def parseSGR_loop.simps toSGRCode_def sgrArm_def sgrAttribute_def
        sgrNumber_def isDigit_def Atoi_def digitsValue_def maxInt_def Let_def OVStyle0_def)

lemma cacheAfter_1:
  "cacheAfter pal [(sty, str ''1'')] = [str ''1'' \<mapsto> OVStyle0\<lparr>Bold := True\<rparr>]"
  by (simp add: sgrStyle_def Let_def parseSGR_1 [simplified])

theorem sgrStyle_cache_transparent_witness:
  "str ''1'' \<noteq> str ''0'' \<and> str ''1'' \<noteq> [] \<and> str ''1'' \<noteq> str '';''
   \<and> cacheAfter paletteName [(StyleDefault, str ''1'')] (str ''1'') \<noteq> None
   \<and> fst (sgrStyle paletteName (cacheAfter paletteName [(StyleDefault, str ''1'')])
             StyleDefault (str ''1''))
       = StyleDefault\<lparr>attrs := {AttrBold}\<rparr>
   \<and> fst (sgrStyle paletteName Map.empty StyleDefault (str ''1''))
       = StyleDefault\<lparr>attrs := {AttrBold}\<rparr>
   \<and> snd (sgrStyle paletteName (cacheAfter paletteName [(StyleDefault, str ''1'')])
             StyleDefault (str ''1''))
       = cacheAfter paletteName [(StyleDefault, str ''1'')]"
  using sgrStyle_cache_transparent [where p = "str ''1''" and pal = paletteName
      and calls = "[(StyleDefault, str ''1'')]" and sty = StyleDefault and sty' = StyleDefault
      and q = "str ''1''"]
  by (simp add: cacheAfter_1 [simplified] parseSGR_1 [simplified] applyStyle_def setAttr_def
        OVStyle0_def StyleDefault_def sgrStyle_def Let_def)

section \<open>The OSC 8 hyperlink\<close>

lemmas conv_defs = convert_def paraseEscapeSequence_def parseCSI_def newESConverter_def
  initialState_def csiParamStart_def csiParamEnd_def Url_def UrlId_def StyleDefault_def
  ColorDefault_def cellsOf_def Let_def

lemma osc8_bel:
  "feed pal Map.empty newESConverter initialState ([0x1B] @ str '']8;id;u'' @ [0x07] @ str ''X'')
     = ([(0x58, StyleDefault\<lparr>url := str ''u'', urlId := str ''id''\<rparr>)], Map.empty,
        \<lparr>parameter = [], url_buf = [], state = ansiText\<rparr>,
        \<lparr>mainc = 0x58, style = StyleDefault\<lparr>url := str ''u'', urlId := str ''id''\<rparr>,
          eolStyle = StyleDefault\<rparr>)"
  by (simp add: conv_defs)

lemma osc8_st:
  "feed pal Map.empty newESConverter initialState ([0x1B] @ str '']8;id;u'' @ [0x1B, 0x5C] @ str ''X'')
     = ([(0x5C, StyleDefault\<lparr>urlId := str ''id''\<rparr>), (0x58, StyleDefault\<lparr>urlId := str ''id''\<rparr>)],
        Map.empty,
        \<lparr>parameter = [], url_buf = str ''u'', state = ansiText\<rparr>,
        \<lparr>mainc = 0x58, style = StyleDefault\<lparr>urlId := str ''id''\<rparr>, eolStyle = StyleDefault\<rparr>)"
  by (simp add: conv_defs)

lemma oscURL_steps:
  "state es = oscURL \<Longrightarrow>
     (c \<noteq> 0x1B \<and> c \<noteq> 0x0A \<and> c \<noteq> 0x07 \<longrightarrow>
        convert pal cache es (st\<lparr>mainc := c\<rparr>)
          = (True, cache, es\<lparr>url_buf := url_buf es @ [c]\<rparr>, st\<lparr>mainc := c\<rparr>))
   \<and> convert pal cache es (st\<lparr>mainc := 0x07\<rparr>)
        = (True, cache, es\<lparr>url_buf := [], state := ansiText\<rparr>,
           st\<lparr>mainc := 0x07, style := (style st)\<lparr>url := url_buf es\<rparr>\<rparr>)
   \<and> convert pal cache es (st\<lparr>mainc := 0x1B\<rparr>)
        = (True, cache, es\<lparr>state := ansiEscape\<rparr>, st\<lparr>mainc := 0x1B\<rparr>)
   \<and> convert pal cache (es\<lparr>state := ansiEscape\<rparr>) (st\<lparr>mainc := 0x5C\<rparr>)
        = (False, cache, es\<lparr>state := ansiText\<rparr>, st\<lparr>mainc := 0x5C\<rparr>)"
  by (simp add: conv_defs)

text \<open>
  C4. The run \<^verbatim>\<open>ESC ] 8 ; id ; u BEL X\<close> stores the identifier and the URL in the
  style and produces the one cell \<open>X\<close>. The run \<^verbatim>\<open>ESC ] 8 ; id ; u ESC \ X\<close> with the
  two-byte terminator does not: \<^verbatim>\<open>convert\<close> sends \<open>0x1B\<close> to the Esc state before the
  arm of the URL state that stores the URL can run, so the URL never reaches the style,
  the backslash is not consumed and becomes a cell, and the URL buffer keeps \<open>u\<close> for the
  next hyperlink.
\<close>

theorem osc8_string_terminator_not_handled:
  "feed paletteName Map.empty newESConverter initialState
       ([0x1B] @ str '']8;id;u'' @ [0x07] @ str ''X'')
     = ([(0x58, StyleDefault\<lparr>url := str ''u'', urlId := str ''id''\<rparr>)], Map.empty,
        \<lparr>parameter = [], url_buf = [], state = ansiText\<rparr>,
        \<lparr>mainc = 0x58, style = StyleDefault\<lparr>url := str ''u'', urlId := str ''id''\<rparr>,
          eolStyle = StyleDefault\<rparr>)
   \<and> feed paletteName Map.empty newESConverter initialState
       ([0x1B] @ str '']8;id;u'' @ [0x1B, 0x5C] @ str ''X'')
     = ([(0x5C, StyleDefault\<lparr>urlId := str ''id''\<rparr>), (0x58, StyleDefault\<lparr>urlId := str ''id''\<rparr>)],
        Map.empty,
        \<lparr>parameter = [], url_buf = str ''u'', state = ansiText\<rparr>,
        \<lparr>mainc = 0x58, style = StyleDefault\<lparr>urlId := str ''id''\<rparr>, eolStyle = StyleDefault\<rparr>)"
  using osc8_bel [of paletteName] osc8_st [of paletteName] by simp

section \<open>Parse errors in SGR parameters\<close>

lemma sgrArm_step_independent:
  "sgrArm pal sgr s = Continue i s' \<Longrightarrow> \<exists>s''. sgrArm pal sgr t = Continue i s''"
  by (auto simp: sgrArm_def split: if_splits prod.splits option.splits)

lemma sgrArm_return_independent:
  "sgrArm pal sgr s = Return r \<Longrightarrow> \<exists>r'. sgrArm pal sgr t = Return r'"
  by (auto simp: sgrArm_def split: if_splits prod.splits option.splits)

lemma faulty_here:
  assumes "index < length paramList" "faulty pal paramList index"
  shows "parseSGR_loop pal paramList index s = OVStyle0"
proof (cases "toSGRCode paramList index")
  case (Inl e)
  with assms show ?thesis by (subst parseSGR_loop.simps) simp
next
  case (Inr sgr)
  with assms have c: "code sgr = 38 \<or> code sgr = 48"
    and e: "snd (snd (parseSGRColor pal sgr)) \<noteq> None"
    by (simp_all add: faulty_def)
  from e obtain color i er where "parseSGRColor pal sgr = (color, i, Some er)"
    by (cases "parseSGRColor pal sgr") auto
  with c have "sgrArm pal sgr s = Return OVStyle0"
    by (auto simp: sgrArm_def)
  with Inr assms show ?thesis by (subst parseSGR_loop.simps) simp
qed

lemma loop_faulty_visited:
  "j \<in> set (visits pal paramList index) \<Longrightarrow> faulty pal paramList j \<Longrightarrow>
   parseSGR_loop pal paramList index s = OVStyle0"
proof (induction pal paramList index arbitrary: s rule: visits.induct)
  case (1 pal paramList index)
  from "1.prems"(1) have lt: "index < length paramList"
    by (subst (asm) visits.simps) (auto split: if_splits)
  show ?case
  proof (cases "j = index")
    case True
    with lt "1.prems"(2) show ?thesis by (simp add: faulty_here)
  next
    case False
    have unfold: "visits pal paramList index =
        index # (case toSGRCode paramList index of
                   Inl e \<Rightarrow> []
                 | Inr sgr \<Rightarrow>
                    (case sgrArm pal sgr OVStyle0 of
                       Return r \<Rightarrow> []
                     | Continue i s' \<Rightarrow> visits pal paramList (index + i + 1)))"
      using lt by (subst visits.simps) simp
    from "1.prems"(1) False have tailj:
      "j \<in> set (case toSGRCode paramList index of
                   Inl e \<Rightarrow> []
                 | Inr sgr \<Rightarrow>
                    (case sgrArm pal sgr OVStyle0 of
                       Return r \<Rightarrow> []
                     | Continue i s' \<Rightarrow> visits pal paramList (index + i + 1)))"
      unfolding unfold by simp
    show ?thesis
    proof (cases "toSGRCode paramList index")
      case (Inl e)
      with tailj show ?thesis by simp
    next
      case (Inr sgr)
      note t = Inr
      show ?thesis
      proof (cases "sgrArm pal sgr OVStyle0")
        case (Return r)
        with tailj t show ?thesis by simp
      next
        case (Continue i s0)
        with tailj t have j: "j \<in> set (visits pal paramList (index + i + 1))" by simp
        from Continue obtain s1 where a1: "sgrArm pal sgr s = Continue i s1"
          using sgrArm_step_independent by blast
        have "parseSGR_loop pal paramList (index + i + 1) s1 = OVStyle0"
          using "1.IH" [OF lt t Continue j "1.prems"(2)] .
        with lt t a1 show ?thesis by (subst parseSGR_loop.simps) simp
      qed
    qed
  qed
qed

lemma applyStyle_OVStyle0: "applyStyle sty OVStyle0 = sty"
  by (simp add: applyStyle_def OVStyle0_def)

lemma plain_step:
  assumes "index < length paramList" "plainElement (paramList ! index)"
  shows "visits pal paramList index = index # visits pal paramList (index + 1)"
proof (cases "sgrNumber (hd (split_on 0x3A (paramList ! index)))")
  case (Inl er)
  with assms show ?thesis by (simp add: plainElement_def)
next
  case (Inr c)
  with assms(2) have c: "c \<noteq> 38 \<and> c \<noteq> 48 \<and> c \<noteq> 58"
    by (simp add: plainElement_def)
  define sgr where "sgr = (if 1 < length (split_on 0x3A (paramList ! index))
      then \<lparr>code = c, params = tl (split_on 0x3A (paramList ! index)), colonF = True\<rparr>
      else \<lparr>code = c, params = [], colonF = False\<rparr>)"
  have t: "toSGRCode paramList index = Inr sgr"
    using assms(1) Inr c by (simp add: toSGRCode_def Let_def sgr_def)
  have "code sgr = c" by (simp add: sgr_def)
  with c have "sgrArm pal sgr OVStyle0 = Continue 0 (sgrAttribute pal sgr OVStyle0)"
    by (simp add: sgrArm_def)
  with assms t show ?thesis by (subst visits.simps) simp
qed

lemma visits_plain_prefix:
  "index \<le> j \<Longrightarrow> j < length paramList \<Longrightarrow>
   (\<forall>i. index \<le> i \<and> i < j \<longrightarrow> plainElement (paramList ! i)) \<Longrightarrow>
   j \<in> set (visits pal paramList index)"
proof (induction "j - index" arbitrary: index)
  case 0
  then have "index = j" by simp
  with "0.prems" show ?case by (subst visits.simps) simp
next
  case (Suc n)
  then have lt: "index < j" by simp
  with Suc.prems have "plainElement (paramList ! index)" "index < length paramList" by auto
  then have v: "visits pal paramList index = index # visits pal paramList (index + 1)"
    using plain_step by blast
  have "j \<in> set (visits pal paramList (index + 1))"
    using Suc.hyps(1) [of "index + 1"] Suc.hyps(2) Suc.prems lt by auto
  with v show ?case by simp
qed

lemma nondigit_sgrNumber: "containsNonDigit x \<Longrightarrow> sgrNumber x = Inl ErrNotSuuport"
  by (cases x) (auto simp: sgrNumber_def)

lemma faulty_code:
  "j < length paramList \<Longrightarrow> containsNonDigit (hd (split_on 0x3A (paramList ! j))) \<Longrightarrow>
   faulty pal paramList j"
  by (simp add: faulty_def toSGRCode_def Let_def nondigit_sgrNumber)

lemma color_mode_nondigit:
  "params sgr \<noteq> [] \<Longrightarrow> containsNonDigit (params sgr ! 0) \<Longrightarrow>
   snd (snd (parseSGRColor pal sgr)) \<noteq> None"
  by (simp add: parseSGRColor_def convertSGRColor_def nondigit_sgrNumber split: prod.splits)

lemma color_index_nondigit:
  "2 \<le> length (params sgr) \<Longrightarrow> sgrNumber (params sgr ! 0) = Inr 5 \<Longrightarrow>
   containsNonDigit (params sgr ! 1) \<Longrightarrow>
   snd (snd (parseSGRColor pal sgr)) \<noteq> None"
  by (cases "params sgr ! 1")
     (auto simp: parseSGRColor_def convertSGRColor_def parse256Color_def Colors256_def
        nondigit_sgrNumber split: prod.splits)

lemma rgb_nondigit:
  "r \<noteq> [] \<Longrightarrow> g \<noteq> [] \<Longrightarrow> b \<noteq> [] \<Longrightarrow>
   containsNonDigit r \<or> containsNonDigit g \<or> containsNonDigit b \<Longrightarrow>
   parseRGBColor r g b = ([], Some ErrInvalidRGB)"
  by (auto simp: parseRGBColor_def Let_def isErr_def nondigit_sgrNumber)

lemma color_rgb_nondigit:
  assumes "4 \<le> length (params sgr)" "sgrNumber (params sgr ! 0) = Inr 2"
    "params sgr ! 1 \<noteq> []" "params sgr ! 2 \<noteq> []" "params sgr ! 3 \<noteq> []"
    "containsNonDigit (params sgr ! 1) \<or> containsNonDigit (params sgr ! 2)
       \<or> containsNonDigit (params sgr ! 3)"
  shows "snd (snd (parseSGRColor pal sgr)) \<noteq> None"
proof -
  have "parseRGBColor (params sgr ! 1) (params sgr ! 2) (params sgr ! 3) = ([], Some ErrInvalidRGB)"
    using assms by (simp add: rgb_nondigit)
  moreover have "take 3 (drop 1 (params sgr)) ! 0 = params sgr ! 1"
    "take 3 (drop 1 (params sgr)) ! 1 = params sgr ! 2"
    "take 3 (drop 1 (params sgr)) ! 2 = params sgr ! 3"
    using assms(1) by (simp_all add: eval_nat_numeral)
  moreover have "params sgr \<noteq> []" using assms(1) by auto
  ultimately show ?thesis
    using assms
    by (simp add: parseSGRColor_def convertSGRColor_def Colors256_def ColorsRGB_def Let_def
          split: prod.splits)
qed

lemma color_rgb_placeholder_nondigit:
  assumes "4 < length (params sgr)" "colonF sgr" "sgrNumber (params sgr ! 0) = Inr 2"
    "params sgr ! 1 = []" "params sgr ! 2 \<noteq> []" "params sgr ! 3 \<noteq> []" "params sgr ! 4 \<noteq> []"
    "containsNonDigit (params sgr ! 2) \<or> containsNonDigit (params sgr ! 3)
       \<or> containsNonDigit (params sgr ! 4)"
  shows "snd (snd (parseSGRColor pal sgr)) \<noteq> None"
proof -
  have "parseRGBColor (params sgr ! 2) (params sgr ! 3) (params sgr ! 4) = ([], Some ErrInvalidRGB)"
    using assms by (simp add: rgb_nondigit)
  moreover have "take 3 (drop 2 (params sgr)) ! 0 = params sgr ! 2"
    "take 3 (drop 2 (params sgr)) ! 1 = params sgr ! 3"
    "take 3 (drop 2 (params sgr)) ! 2 = params sgr ! 4"
    using assms(1) by (simp_all add: eval_nat_numeral)
  moreover have "params sgr \<noteq> []" using assms(1) by auto
  ultimately show ?thesis
    using assms
    by (simp add: parseSGRColor_def convertSGRColor_def Colors256_def ColorsRGB_def Let_def
          split: prod.splits)
qed

lemma underline_nondigit_ignored:
  "code sgr = 4 \<Longrightarrow> params sgr \<noteq> [] \<Longrightarrow> containsNonDigit (params sgr ! 0) \<Longrightarrow>
   sgrArm pal sgr s = Continue 0 s"
  by (cases "params sgr ! 0")
     (auto simp: sgrArm_def sgrAttribute_def underLineStyle_def nondigit_sgrNumber Let_def)

lemma visits_bound:
  "j \<in> set (visits pal paramList index) \<Longrightarrow> j < length paramList"
proof (induction pal paramList index rule: visits.induct)
  case (1 pal paramList index)
  show ?case
  proof (cases "index < length paramList")
    case False
    with "1.prems" show ?thesis by (subst (asm) visits.simps) simp
  next
    case True
    note lt = True
    have unfold: "visits pal paramList index =
        index # (case toSGRCode paramList index of
                   Inl e \<Rightarrow> []
                 | Inr sgr \<Rightarrow>
                    (case sgrArm pal sgr OVStyle0 of
                       Return r \<Rightarrow> []
                     | Continue i s' \<Rightarrow> visits pal paramList (index + i + 1)))"
      using lt by (subst visits.simps) simp
    show ?thesis
    proof (cases "j = index")
      case True
      with lt show ?thesis by simp
    next
      case False
      with "1.prems" have tailj:
        "j \<in> set (case toSGRCode paramList index of
                   Inl e \<Rightarrow> []
                 | Inr sgr \<Rightarrow>
                    (case sgrArm pal sgr OVStyle0 of
                       Return r \<Rightarrow> []
                     | Continue i s' \<Rightarrow> visits pal paramList (index + i + 1)))"
        unfolding unfold by simp
      show ?thesis
      proof (cases "toSGRCode paramList index")
        case (Inl e)
        with tailj show ?thesis by simp
      next
        case (Inr sgr)
        note t = Inr
        show ?thesis
        proof (cases "sgrArm pal sgr OVStyle0")
          case (Return r)
          with tailj t show ?thesis by simp
        next
          case (Continue i s0)
          with tailj t have "j \<in> set (visits pal paramList (index + i + 1))" by simp
          then show ?thesis using "1.IH" [OF lt t Continue] by simp
        qed
      qed
    qed
  qed
qed

lemma reset_strings_not_faulty:
  assumes "p = str ''0'' \<or> p = [] \<or> p = str '';''"
  shows "\<not> (j \<in> set (visits pal (split_on 0x3B p) 0) \<and> faulty pal (split_on 0x3B p) j)"
proof -
  have z: "sgrNumber [48] = Inr 0"
    by (simp add: sgrNumber_def isDigit_def Atoi_def digitsValue_def maxInt_def)
  have e: "sgrNumber [] = Inr 0" by (simp add: sgrNumber_def)
  have f0: "\<not> faulty pal [ [48] ] 0"
    by (simp add: faulty_def toSGRCode_def z Let_def)
  have f1: "\<not> faulty pal [ [] ] 0"
    by (simp add: faulty_def toSGRCode_def e Let_def)
  have f2: "\<not> faulty pal [ [], [] ] 0" "\<not> faulty pal [ [], [] ] 1"
    by (simp_all add: faulty_def toSGRCode_def e Let_def)
  from assms show ?thesis
  proof (elim disjE)
    assume p: "p = str ''0''"
    show ?thesis
    proof
      assume "j \<in> set (visits pal (split_on 0x3B p) 0) \<and> faulty pal (split_on 0x3B p) j"
      with p have "j < length [ [48::nat] ]" "faulty pal [ [48] ] j"
        using visits_bound [of j pal "[ [48] ]" 0] by simp_all
      with f0 show False by simp
    qed
  next
    assume p: "p = []"
    show ?thesis
    proof
      assume "j \<in> set (visits pal (split_on 0x3B p) 0) \<and> faulty pal (split_on 0x3B p) j"
      with p have "j < length [ []::gostring]" "faulty pal [ [] ] j"
        using visits_bound [of j pal "[ [] ]" 0] by simp_all
      with f1 show False by simp
    qed
  next
    assume p: "p = str '';''"
    show ?thesis
    proof
      assume "j \<in> set (visits pal (split_on 0x3B p) 0) \<and> faulty pal (split_on 0x3B p) j"
      with p have "j < length [ [], []::gostring]" "faulty pal [ [], [] ] j"
        using visits_bound [of j pal "[ [], [] ]" 0] by simp_all
      then have "j = 0 \<or> j = 1" by auto
      with \<open>faulty pal [ [], [] ] j\<close> f2 show False by auto
    qed
  qed
qed

lemma faulty_empty_delta:
  assumes "j \<in> set (visits pal (split_on 0x3B p) 0)" "faulty pal (split_on 0x3B p) j"
  shows "parseSGR pal p = OVStyle0"
    and "sgrStyle pal (cacheAfter pal calls) sty p = (sty, (cacheAfter pal calls)(p \<mapsto> OVStyle0))"
    and "state es = ansiControlSequence \<and> parameter es = p \<longrightarrow>
           convert pal (cacheAfter pal calls) es (st\<lparr>mainc := 0x6D\<rparr>)
             = (True, (cacheAfter pal calls)(p \<mapsto> OVStyle0), es\<lparr>state := ansiText\<rparr>,
                st\<lparr>mainc := 0x6D\<rparr>)"
proof -
  show e: "parseSGR pal p = OVStyle0"
    using assms by (simp add: parseSGR_def loop_faulty_visited)
  have n: "p \<noteq> str ''0''" "p \<noteq> []" "p \<noteq> str '';''"
    using reset_strings_not_faulty [of p j pal] assms by auto
  show s: "sgrStyle pal (cacheAfter pal calls) sty p = (sty, (cacheAfter pal calls)(p \<mapsto> OVStyle0))"
    using sgrStyle_cacheAfter [OF n, of pal calls sty] by (simp add: e applyStyle_OVStyle0)
  show "state es = ansiControlSequence \<and> parameter es = p \<longrightarrow>
           convert pal (cacheAfter pal calls) es (st\<lparr>mainc := 0x6D\<rparr>)
             = (True, (cacheAfter pal calls)(p \<mapsto> OVStyle0), es\<lparr>state := ansiText\<rparr>,
                st\<lparr>mainc := 0x6D\<rparr>)"
    using sgrStyle_cacheAfter [OF n, of pal calls "style st"]
    by (auto simp: convert_def paraseEscapeSequence_def parseCSI_def e applyStyle_OVStyle0)
qed

lemma faulty_color:
  assumes "toSGRCode paramList j = Inr sgr" "code sgr = 38 \<or> code sgr = 48"
    and "(params sgr \<noteq> [] \<and> containsNonDigit (params sgr ! 0))
       \<or> (2 \<le> length (params sgr) \<and> sgrNumber (params sgr ! 0) = Inr 5
            \<and> containsNonDigit (params sgr ! 1))
       \<or> (4 \<le> length (params sgr) \<and> sgrNumber (params sgr ! 0) = Inr 2
            \<and> params sgr ! 1 \<noteq> [] \<and> params sgr ! 2 \<noteq> [] \<and> params sgr ! 3 \<noteq> []
            \<and> (containsNonDigit (params sgr ! 1) \<or> containsNonDigit (params sgr ! 2)
                 \<or> containsNonDigit (params sgr ! 3)))
       \<or> (4 < length (params sgr) \<and> colonF sgr \<and> sgrNumber (params sgr ! 0) = Inr 2
            \<and> params sgr ! 1 = [] \<and> params sgr ! 2 \<noteq> [] \<and> params sgr ! 3 \<noteq> []
            \<and> params sgr ! 4 \<noteq> []
            \<and> (containsNonDigit (params sgr ! 2) \<or> containsNonDigit (params sgr ! 3)
                 \<or> containsNonDigit (params sgr ! 4)))"
  shows "faulty pal paramList j"
proof -
  have "snd (snd (parseSGRColor pal sgr)) \<noteq> None"
    using assms(3) color_mode_nondigit [of sgr pal] color_index_nondigit [of sgr pal]
      color_rgb_nondigit [of sgr pal] color_rgb_placeholder_nondigit [of sgr pal]
    by blast
  with assms(1,2) show ?thesis by (simp add: faulty_def)
qed

text \<open>
  C3 (as amended). Take any element \<open>j\<close> of the parameter list that the parser reaches;
  every element is reached when each earlier one has a numeric code other than 38, 48
  and 58. If the code of element \<open>j\<close> contains a non-digit, or element \<open>j\<close> is an
  extended colour 38 or 48 with a non-digit in its mode, in the palette index of mode
  5, or in one of three non-empty RGB components of mode 2, then \<^verbatim>\<open>parseSGR\<close> returns the
  zero delta: applying it changes no attribute, no colour and no hyperlink, the cache
  stores the zero delta, and the final \<open>m\<close> is consumed and leaves the converter in the
  Text state with both styles as they were before the sequence, so the rest of the
  line is processed with the style that was in effect before the sequence. A non-digit
  in the sub-parameter of an underline element (\<^verbatim>\<open>4:x\<close>) does not empty the delta: the
  element alone is ignored.
\<close>

theorem sgr_parse_error_empty_delta:
  "(j \<in> set (visits pal (split_on 0x3B p) 0) \<and> faulty pal (split_on 0x3B p) j \<longrightarrow>
       parseSGR pal p = OVStyle0
     \<and> applyStyle sty (parseSGR pal p) = sty
     \<and> sgrStyle pal (cacheAfter pal calls) sty p = (sty, (cacheAfter pal calls)(p \<mapsto> OVStyle0))
     \<and> (state es = ansiControlSequence \<and> parameter es = p \<longrightarrow>
           convert pal (cacheAfter pal calls) es (st\<lparr>mainc := 0x6D\<rparr>)
             = (True, (cacheAfter pal calls)(p \<mapsto> OVStyle0), es\<lparr>state := ansiText\<rparr>,
                st\<lparr>mainc := 0x6D\<rparr>)))
   \<and> (j < length paramList \<and> (\<forall>i<j. plainElement (paramList ! i))
        \<longrightarrow> j \<in> set (visits pal paramList 0))
   \<and> (j < length paramList \<and> containsNonDigit (hd (split_on 0x3A (paramList ! j)))
        \<longrightarrow> faulty pal paramList j)
   \<and> (toSGRCode paramList j = Inr sgr \<and> (code sgr = 38 \<or> code sgr = 48)
        \<and> ((params sgr \<noteq> [] \<and> containsNonDigit (params sgr ! 0))
           \<or> (2 \<le> length (params sgr) \<and> sgrNumber (params sgr ! 0) = Inr 5
                \<and> containsNonDigit (params sgr ! 1))
           \<or> (4 \<le> length (params sgr) \<and> sgrNumber (params sgr ! 0) = Inr 2
                \<and> params sgr ! 1 \<noteq> [] \<and> params sgr ! 2 \<noteq> [] \<and> params sgr ! 3 \<noteq> []
                \<and> (containsNonDigit (params sgr ! 1) \<or> containsNonDigit (params sgr ! 2)
                     \<or> containsNonDigit (params sgr ! 3)))
           \<or> (4 < length (params sgr) \<and> colonF sgr \<and> sgrNumber (params sgr ! 0) = Inr 2
                \<and> params sgr ! 1 = [] \<and> params sgr ! 2 \<noteq> [] \<and> params sgr ! 3 \<noteq> []
                \<and> params sgr ! 4 \<noteq> []
                \<and> (containsNonDigit (params sgr ! 2) \<or> containsNonDigit (params sgr ! 3)
                     \<or> containsNonDigit (params sgr ! 4))))
        \<longrightarrow> faulty pal paramList j)
   \<and> (code sgr = 4 \<and> params sgr \<noteq> [] \<and> containsNonDigit (params sgr ! 0)
        \<longrightarrow> sgrArm pal sgr s = Continue 0 s)"
proof (intro conjI impI)
  assume a: "j \<in> set (visits pal (split_on 0x3B p) 0) \<and> faulty pal (split_on 0x3B p) j"
  then show e: "parseSGR pal p = OVStyle0" using faulty_empty_delta(1) by blast
  show "applyStyle sty (parseSGR pal p) = sty" by (simp add: e applyStyle_OVStyle0)
  show "sgrStyle pal (cacheAfter pal calls) sty p = (sty, (cacheAfter pal calls)(p \<mapsto> OVStyle0))"
    using a faulty_empty_delta(2) by blast
  assume "state es = ansiControlSequence \<and> parameter es = p"
  then show "convert pal (cacheAfter pal calls) es (st\<lparr>mainc := 0x6D\<rparr>)
             = (True, (cacheAfter pal calls)(p \<mapsto> OVStyle0), es\<lparr>state := ansiText\<rparr>,
                st\<lparr>mainc := 0x6D\<rparr>)"
    using a faulty_empty_delta(3) [of j pal p es calls st] by blast
next
  assume "j < length paramList \<and> (\<forall>i<j. plainElement (paramList ! i))"
  then show "j \<in> set (visits pal paramList 0)"
    using visits_plain_prefix [of 0 j paramList pal] by simp
next
  assume "j < length paramList \<and> containsNonDigit (hd (split_on 0x3A (paramList ! j)))"
  then show "faulty pal paramList j" using faulty_code by blast
next
  assume "toSGRCode paramList j = Inr sgr \<and> (code sgr = 38 \<or> code sgr = 48)
        \<and> ((params sgr \<noteq> [] \<and> containsNonDigit (params sgr ! 0))
           \<or> (2 \<le> length (params sgr) \<and> sgrNumber (params sgr ! 0) = Inr 5
                \<and> containsNonDigit (params sgr ! 1))
           \<or> (4 \<le> length (params sgr) \<and> sgrNumber (params sgr ! 0) = Inr 2
                \<and> params sgr ! 1 \<noteq> [] \<and> params sgr ! 2 \<noteq> [] \<and> params sgr ! 3 \<noteq> []
                \<and> (containsNonDigit (params sgr ! 1) \<or> containsNonDigit (params sgr ! 2)
                     \<or> containsNonDigit (params sgr ! 3)))
           \<or> (4 < length (params sgr) \<and> colonF sgr \<and> sgrNumber (params sgr ! 0) = Inr 2
                \<and> params sgr ! 1 = [] \<and> params sgr ! 2 \<noteq> [] \<and> params sgr ! 3 \<noteq> []
                \<and> params sgr ! 4 \<noteq> []
                \<and> (containsNonDigit (params sgr ! 2) \<or> containsNonDigit (params sgr ! 3)
                     \<or> containsNonDigit (params sgr ! 4))))"
  then show "faulty pal paramList j" using faulty_color [of paramList j sgr pal] by blast
next
  assume "code sgr = 4 \<and> params sgr \<noteq> [] \<and> containsNonDigit (params sgr ! 0)"
  then show "sgrArm pal sgr s = Continue 0 s" using underline_nondigit_ignored by blast
qed

lemmas num_defs3 = sgrNumber_def isDigit_def Atoi_def digitsValue_def maxInt_def

lemma plain_1: "plainElement (str ''1'')"
  by (simp add: plainElement_def num_defs3)

lemma toSGRCode_w1:
  "toSGRCode [str ''1'', str ''38'', str ''5'', str ''x''] 1
     = Inr \<lparr>code = 38, params = [str ''5'', str ''x''], colonF = False\<rparr>"
  by (simp add: toSGRCode_def num_defs3 Let_def)

theorem sgr_parse_error_empty_delta_witness:
  "(1::nat) < length (split_on 0x3B (str ''1;38;5;x''))
   \<and> plainElement (split_on 0x3B (str ''1;38;5;x'') ! 0)
   \<and> toSGRCode (split_on 0x3B (str ''1;38;5;x'')) 1
        = Inr \<lparr>code = 38, params = [str ''5'', str ''x''], colonF = False\<rparr>
   \<and> sgrNumber (str ''5'') = Inr 5 \<and> containsNonDigit (str ''x'')
   \<and> 1 \<in> set (visits paletteName (split_on 0x3B (str ''1;38;5;x'')) 0)
   \<and> faulty paletteName (split_on 0x3B (str ''1;38;5;x'')) 1
   \<and> parseSGR paletteName (str ''1;38;5;x'') = OVStyle0
   \<and> convert paletteName Map.empty
        \<lparr>parameter = str ''1;38;5;x'', url_buf = [], state = ansiControlSequence\<rparr>
        (initialState\<lparr>style := StyleDefault\<lparr>attrs := {AttrItalic}\<rparr>, mainc := 0x6D\<rparr>)
      = (True, [str ''1;38;5;x'' \<mapsto> OVStyle0],
         \<lparr>parameter = str ''1;38;5;x'', url_buf = [], state = ansiText\<rparr>,
         initialState\<lparr>style := StyleDefault\<lparr>attrs := {AttrItalic}\<rparr>, mainc := 0x6D\<rparr>)
   \<and> containsNonDigit (hd (split_on 0x3A (split_on 0x3B (str ''1;x'') ! 1)))
   \<and> parseSGR paletteName (str ''1;x'') = OVStyle0
   \<and> sgrArm paletteName \<lparr>code = 4, params = [str ''x''], colonF = True\<rparr> (OVStyle0\<lparr>Bold := True\<rparr>)
        = Continue 0 (OVStyle0\<lparr>Bold := True\<rparr>)"
proof -
  let ?p = "str ''1;38;5;x''"
  let ?sgr = "\<lparr>code = 38, params = [str ''5'', str ''x''], colonF = False\<rparr>"
  let ?st = "initialState\<lparr>style := StyleDefault\<lparr>attrs := {AttrItalic}\<rparr>\<rparr>"
  let ?es = "\<lparr>parameter = ?p, url_buf = [], state = ansiControlSequence\<rparr>"
  note t1 = sgr_parse_error_empty_delta [where p = ?p and j = 1 and pal = paletteName
      and paramList = "split_on 0x3B ?p" and sgr = ?sgr and calls = "[]" and es = ?es
      and st = ?st and sty = StyleDefault and s = OVStyle0]
  have h5: "sgrNumber (str ''5'') = Inr 5" by (simp add: num_defs3)
  have reach: "1 \<in> set (visits paletteName (split_on 0x3B ?p) 0)"
    using t1 plain_1 by simp
  have fl: "faulty paletteName (split_on 0x3B ?p) 1"
    using t1 toSGRCode_w1 h5 by (simp add: isDigit_def)
  have main: "parseSGR paletteName ?p = OVStyle0
     \<and> convert paletteName Map.empty ?es (?st\<lparr>mainc := 0x6D\<rparr>)
        = (True, [?p \<mapsto> OVStyle0], ?es\<lparr>state := ansiText\<rparr>, ?st\<lparr>mainc := 0x6D\<rparr>)"
    using t1 reach fl by simp
  let ?q = "str ''1;x''"
  note t2 = sgr_parse_error_empty_delta [where p = ?q and j = 1 and pal = paletteName
      and paramList = "split_on 0x3B ?q" and calls = "[]"
      and sgr = "\<lparr>code = 4, params = [str ''x''], colonF = True\<rparr>"
      and s = "OVStyle0\<lparr>Bold := True\<rparr>"]
  have reach2: "1 \<in> set (visits paletteName (split_on 0x3B ?q) 0)"
    using t2 plain_1 by simp
  have fl2: "faulty paletteName (split_on 0x3B ?q) 1"
    using t2 by (simp add: isDigit_def)
  have q: "parseSGR paletteName ?q = OVStyle0" using t2 reach2 fl2 by simp
  have ul: "sgrArm paletteName \<lparr>code = 4, params = [str ''x''], colonF = True\<rparr> (OVStyle0\<lparr>Bold := True\<rparr>)
        = Continue 0 (OVStyle0\<lparr>Bold := True\<rparr>)"
    using t2 by (simp add: isDigit_def)
  show ?thesis
    using main q ul reach fl plain_1 toSGRCode_w1 h5
    by (simp add: initialState_def isDigit_def)
qed

lemma parse_underline_x: "parseSGR pal (str ''1;4:x'') = OVStyle0\<lparr>Bold := True\<rparr>"
  by (simp add: parseSGR_def parseSGR_loop.simps toSGRCode_def sgrArm_def sgrAttribute_def
        underLineStyle_def num_defs3 Let_def OVStyle0_def)

text \<open>
  The claim as first stated fails at \<^verbatim>\<open>1;4:x\<close>: the sub-parameter \<open>x\<close> of the underline
  element is not a number, and the delta is bold, not empty.
\<close>

theorem sgr_underline_nondigit_counterexample:
  "containsNonDigit (str ''x'')
   \<and> parseSGR paletteName (str ''1;4:x'') = OVStyle0\<lparr>Bold := True\<rparr>
   \<and> parseSGR paletteName (str ''1;4:x'') \<noteq> OVStyle0
   \<and> fst (sgrStyle paletteName Map.empty StyleDefault (str ''1;4:x''))
        = StyleDefault\<lparr>attrs := {AttrBold}\<rparr>
   \<and> fst (sgrStyle paletteName Map.empty StyleDefault (str ''1;4:x'')) \<noteq> StyleDefault"
  by (simp add: parse_underline_x [simplified] sgrStyle_def Let_def isDigit_def applyStyle_def
        setAttr_def OVStyle0_def StyleDefault_def)

section \<open>Section tags\<close>

lemma sectionWalk_length: "length (sectionWalk f cs cn lns) = length lns"
  by (induction lns arbitrary: cs cn) simp_all

lemma sectionWalk_cong:
  "(\<forall>ln \<in> set lns. f ln = g ln) \<Longrightarrow> sectionWalk f cs cn lns = sectionWalk g cs cn lns"
  by (induction lns arbitrary: cs cn) simp_all

lemma sectionWalk_line_section:
  "k < length lns \<Longrightarrow>
   fst (sectionWalk f cs cn lns ! k) = lns ! k
   \<and> fst (snd (sectionWalk f cs cn lns ! k)) = cs + length (filter f (take (Suc k) lns))"
proof (induction lns arbitrary: cs cn k)
  case Nil
  then show ?case by simp
next
  case (Cons ln lns)
  show ?case
  proof (cases k)
    case 0
    then show ?thesis by simp
  next
    case (Suc m)
    with Cons.prems have "m < length lns" by simp
    from Cons.IH [OF this] Suc show ?thesis by simp
  qed
qed

lemma sectionWalk_start:
  "k < length lns \<Longrightarrow> f (lns ! k) \<Longrightarrow> snd (snd (sectionWalk f cs cn lns ! k)) = 1"
proof (induction lns arbitrary: cs cn k)
  case Nil
  then show ?case by simp
next
  case (Cons ln lns)
  show ?case
  proof (cases k)
    case 0
    with Cons.prems show ?thesis by simp
  next
    case (Suc m)
    with Cons.prems have "m < length lns" "f (lns ! m)" by simp_all
    from Cons.IH [OF this] Suc show ?thesis by simp
  qed
qed

lemma sectionWalk_first:
  "lns \<noteq> [] \<Longrightarrow> \<not> f (lns ! 0) \<Longrightarrow> sectionWalk f cs cn lns ! 0 = (lns ! 0, cs, cn + 1)"
  by (cases lns) simp_all

lemma sectionWalk_next:
  "Suc k < length lns \<Longrightarrow> \<not> f (lns ! Suc k) \<Longrightarrow>
   snd (sectionWalk f cs cn lns ! Suc k)
     = (fst (snd (sectionWalk f cs cn lns ! k)), snd (snd (sectionWalk f cs cn lns ! k)) + 1)"
proof (induction lns arbitrary: cs cn k)
  case Nil
  then show ?case by simp
next
  case (Cons ln lns)
  show ?case
  proof (cases k)
    case 0
    with Cons.prems obtain l2 rest where "lns = l2 # rest" by (cases lns) auto
    with 0 Cons.prems show ?thesis by simp
  next
    case (Suc m)
    with Cons.prems have "Suc m < length lns" "\<not> f (lns ! Suc m)" by simp_all
    from Cons.IH [OF this] Suc show ?thesis by simp
  qed
qed

lemma sectionWalk_none:
  "(\<forall>ln \<in> set lns. \<not> f ln) \<Longrightarrow>
   sectionWalk f cs cn lns = map (\<lambda>k. (lns ! k, cs, cn + k + 1)) [0 ..< length lns]"
proof (induction lns arbitrary: cn)
  case Nil
  then show ?case by simp
next
  case (Cons ln lns)
  then have IH: "sectionWalk f cs (cn + 1) lns
      = map (\<lambda>k. (lns ! k, cs, cn + 1 + k + 1)) [0 ..< length lns]" by simp
  have "[0 ..< length (ln # lns)] = 0 # map Suc [0 ..< length lns]"
    by (simp add: upt_conv_Cons map_Suc_upt del: upt_Suc)
  with Cons.prems IH show ?case by (simp add: comp_def del: upt_Suc)
qed

lemma sectionWalk_before_first:
  "k < length lns \<Longrightarrow> (\<forall>i \<le> k. \<not> f (lns ! i)) \<Longrightarrow>
   sectionWalk f cs cn lns ! k = (lns ! k, cs, cn + k + 1)"
proof (induction lns arbitrary: cn k)
  case Nil
  then show ?case by simp
next
  case (Cons ln lns)
  show ?case
  proof (cases k)
    case 0
    with Cons.prems show ?thesis by auto
  next
    case (Suc m)
    with Cons.prems have m: "m < length lns" by simp
    have nf: "\<forall>i \<le> m. \<not> f (lns ! i)"
    proof (intro allI impI)
      fix i assume "i \<le> m"
      then have "Suc i \<le> k" using Suc by simp
      with Cons.prems(2) have "\<not> f ((ln # lns) ! Suc i)" by blast
      then show "\<not> f (lns ! i)" by simp
    qed
    have "\<not> f ln" using Cons.prems(2) [rule_format, of 0] by simp
    with Cons.IH [OF m nf, of "cn + 1"] Suc show ?thesis by simp
  qed
qed

lemma isSectionStart_zero:
  "ln < length doc \<Longrightarrow> isSectionStart doc (Some r) 0 ln = r (doc ! ln)"
  by (simp add: isSectionStart_def)

lemma isSectionStart_no_match:
  "R = None \<or> (\<exists>r. R = Some r \<and> \<not> list_ex r doc) \<Longrightarrow> \<not> isSectionStart doc R ssp ln"
  by (auto simp: isSectionStart_def Let_def list_ex_iff split: option.splits)

lemma upt24: "[0 ..< 24] = [0,1,2,3,4,5,6,7,8,9,10,11,12,13,14,15,16,17,18,19,20,21,22,23::nat]"
  by (simp add: upt_rec)

lemma walk24:
  "sectionWalk (\<lambda>ln. ln \<in> set [1, 8, 15, 22]) 0 0 [0 ..< 24] = s5Expected"
  by (simp add: upt24 s5Expected_def)

lemma s5_general:
  assumes len: "24 \<le> length doc"
    and m: "filter (\<lambda>i. beginsWith 0x2D (doc ! i)) [0 ..< 24] = [1, 8, 15, 22]"
  shows "sectionNum doc (Some (beginsWith 0x2D)) 0 [0 ..< 24] = s5Expected"
proof -
  have "\<forall>ln \<in> set [0 ..< 24].
          isSectionStart doc (Some (beginsWith 0x2D)) 0 ln = (ln \<in> set [1, 8, 15, 22])"
  proof
    fix ln assume a: "ln \<in> set [0 ..< 24]"
    then have "ln < length doc" using len by simp
    then have "isSectionStart doc (Some (beginsWith 0x2D)) 0 ln = beginsWith 0x2D (doc ! ln)"
      by (rule isSectionStart_zero)
    also have "\<dots> = (ln \<in> set (filter (\<lambda>i. beginsWith 0x2D (doc ! i)) [0 ..< 24]))"
      using a by simp
    finally show "isSectionStart doc (Some (beginsWith 0x2D)) 0 ln = (ln \<in> set [1, 8, 15, 22])"
      by (simp only: m)
  qed
  then have "sectionWalk (isSectionStart doc (Some (beginsWith 0x2D)) 0) 0 0 [0 ..< 24]
      = sectionWalk (\<lambda>ln. ln \<in> set [1, 8, 15, 22]) 0 0 [0 ..< 24]"
    by (rule sectionWalk_cong)
  then show ?thesis by (simp only: sectionNum_def walk24)
qed

lemma isSectionStart_shift:
  "isSectionStart doc (Some r) ssp ln
     \<longleftrightarrow> (\<exists>m < length doc. r (doc ! m) \<and> int ln = int m + ssp)"
proof
  assume "isSectionStart doc (Some r) ssp ln"
  then have a: "0 \<le> int ln - ssp" "nat (int ln - ssp) < length doc"
    "r (doc ! nat (int ln - ssp))"
    by (simp_all add: isSectionStart_def Let_def)
  then have "int ln = int (nat (int ln - ssp)) + ssp" by simp
  with a show "\<exists>m < length doc. r (doc ! m) \<and> int ln = int m + ssp" by blast
next
  assume "\<exists>m < length doc. r (doc ! m) \<and> int ln = int m + ssp"
  then obtain m where "m < length doc" "r (doc ! m)" "int ln = int m + ssp" by blast
  then show "isSectionStart doc (Some r) ssp ln"
    by (simp add: isSectionStart_def Let_def)
qed

text \<open>
  C2 (as amended). A row starts a section when it lies \<open>SectionStartPosition\<close> lines
  after a line that matches the delimiter; with \<open>SectionStartPosition = 0\<close> these are
  the matching lines themselves. For every document, delimiter and list of visible
  rows, the analyzer tags row \<open>k\<close> with its line number, with \<open>section\<close> = the number
  of section starts among the rows up to and including \<open>k\<close> (0 before the first), and
  with \<open>sectionNm\<close> = 1 at a section start and one more than the row before otherwise;
  rows before the first section start get \<open>(0, n)\<close> with \<open>n\<close> counting from 1. For a
  document of at least 24 lines in which, among lines 0 to 23, exactly lines 1, 8, 15
  and 22 begin with \<open>-\<close>, the delimiter \<^verbatim>\<open>"^-"\<close>, start position 0 and rows 0 to 23 the
  annotation is exactly (0)0-01, (1)1-01, (2)1-02, ..., (8)2-01, ..., (15)3-01, ...,
  (22)4-01, (23)4-02.
\<close>

theorem section_tagging_invariant:
  "(k < length lns \<longrightarrow>
       fst (sectionNum doc R ssp lns ! k) = lns ! k
     \<and> fst (snd (sectionNum doc R ssp lns ! k))
         = length (filter (isSectionStart doc R ssp) (take (Suc k) lns))
     \<and> (isSectionStart doc R ssp (lns ! k) \<longrightarrow> snd (snd (sectionNum doc R ssp lns ! k)) = 1)
     \<and> ((\<forall>i \<le> k. \<not> isSectionStart doc R ssp (lns ! i))
          \<longrightarrow> sectionNum doc R ssp lns ! k = (lns ! k, 0, k + 1)))
   \<and> (Suc k < length lns \<and> \<not> isSectionStart doc R ssp (lns ! Suc k) \<longrightarrow>
        snd (sectionNum doc R ssp lns ! Suc k)
          = (fst (snd (sectionNum doc R ssp lns ! k)),
             snd (snd (sectionNum doc R ssp lns ! k)) + 1))
   \<and> length (sectionNum doc R ssp lns) = length lns
   \<and> (ln < length doc \<longrightarrow> isSectionStart doc (Some r) 0 ln = r (doc ! ln))
   \<and> (isSectionStart doc (Some r) ssp ln
        \<longleftrightarrow> (\<exists>m < length doc. r (doc ! m) \<and> int ln = int m + ssp))
   \<and> (24 \<le> length doc
        \<and> filter (\<lambda>i. beginsWith 0x2D (doc ! i)) [0 ..< 24] = [1, 8, 15, 22]
      \<longrightarrow> sectionNum doc (Some (beginsWith 0x2D)) 0 [0 ..< 24] = s5Expected)"
  using sectionWalk_line_section [of k lns "isSectionStart doc R ssp" 0 0]
    sectionWalk_start [of k lns "isSectionStart doc R ssp" 0 0]
    sectionWalk_before_first [of k lns "isSectionStart doc R ssp" 0 0]
    sectionWalk_next [of k lns "isSectionStart doc R ssp" 0 0]
    sectionWalk_length [of "isSectionStart doc R ssp" 0 0 lns]
    isSectionStart_zero [of ln doc r] isSectionStart_shift [of doc r ssp ln]
    s5_general [of doc]
  by (simp add: sectionNum_def)

lemma section2Like_unfold:
  "section2Like =
    [str ''head'',
     str ''-- section'', str ''text'', str ''text'', str ''text'', str ''text'', str ''text'', str ''text'',
     str ''-- section'', str ''text'', str ''text'', str ''text'', str ''text'', str ''text'', str ''text'',
     str ''-- section'', str ''text'', str ''text'', str ''text'', str ''text'', str ''text'', str ''text'',
     str ''-- section'', str ''text'']"
  by (simp add: section2Like_def sectionBlock_def eval_nat_numeral)

lemma section2Like_matches:
  "filter (\<lambda>i. beginsWith 0x2D (section2Like ! i)) [0 ..< 24] = [1, 8, 15, 22]"
  by (simp add: upt24 section2Like_unfold beginsWith_def)

theorem section_tagging_invariant_witness:
  "24 \<le> length section2Like
   \<and> filter (\<lambda>i. beginsWith 0x2D (section2Like ! i)) [0 ..< 24] = [1, 8, 15, 22]
   \<and> sectionNum section2Like (Some (beginsWith 0x2D)) 0 [0 ..< 24] = s5Expected
   \<and> (8::nat) < length [0 ..< 24]
   \<and> isSectionStart section2Like (Some (beginsWith 0x2D)) 0 ([0 ..< 24] ! 8)
   \<and> sectionNum section2Like (Some (beginsWith 0x2D)) 0 [0 ..< 24] ! 8 = (8, 2, 1)
   \<and> \<not> isSectionStart section2Like (Some (beginsWith 0x2D)) 0 ([0 ..< 24] ! 9)
   \<and> sectionNum section2Like (Some (beginsWith 0x2D)) 0 [0 ..< 24] ! 9 = (9, 2, 2)
   \<and> sectionNum section2Like (Some (beginsWith 0x2D)) 0 [0 ..< 24] ! 0 = (0, 0, 1)"
proof -
  note t8 = section_tagging_invariant [where k = 8 and lns = "[0 ..< 24]" and doc = section2Like
      and R = "Some (beginsWith 0x2D)" and ssp = 0 and ln = 8 and r = "beginsWith 0x2D"]
  note t0 = section_tagging_invariant [where k = 0 and lns = "[0 ..< 24]" and doc = section2Like
      and R = "Some (beginsWith 0x2D)" and ssp = 0 and ln = 9 and r = "beginsWith 0x2D"]
  have len: "24 \<le> length section2Like" by (simp add: section2Like_unfold)
  have all: "sectionNum section2Like (Some (beginsWith 0x2D)) 0 [0 ..< 24] = s5Expected"
    using t8 len section2Like_matches by simp
  have s8: "isSectionStart section2Like (Some (beginsWith 0x2D)) 0 ([0 ..< 24] ! 8)"
    using t8 by (simp add: section2Like_unfold beginsWith_def)
  have n9: "\<not> isSectionStart section2Like (Some (beginsWith 0x2D)) 0 ([0 ..< 24] ! 9)"
    using t0 by (simp add: section2Like_unfold beginsWith_def)
  have n0: "\<not> isSectionStart section2Like (Some (beginsWith 0x2D)) 0 ([0 ..< 24] ! 0)"
    by (simp add: isSectionStart_def section2Like_unfold beginsWith_def)
  have r8: "sectionNum section2Like (Some (beginsWith 0x2D)) 0 [0 ..< 24] ! 8 = (8, 2, 1)"
    using t8 s8 all by (simp add: s5Expected_def)
  have r9: "sectionNum section2Like (Some (beginsWith 0x2D)) 0 [0 ..< 24] ! 9 = (9, 2, 2)"
    using all by (simp add: s5Expected_def)
  have r0: "sectionNum section2Like (Some (beginsWith 0x2D)) 0 [0 ..< 24] ! 0 = (0, 0, 1)"
    using t0 n0 by simp
  show ?thesis using len section2Like_matches all s8 n9 r8 r9 r0 by simp
qed

text \<open>
  The claim as first stated fails for a frame with \<open>SectionStartPosition = 1\<close>: line 1
  matches the delimiter and is tagged \<open>(0, 2)\<close>, and line 2, which does not match, is the
  one that starts section 1.
\<close>

theorem section_start_position_counterexample:
  "beginsWith 0x2D ([str ''a'', str ''-b'', str ''c''] ! 1)
   \<and> \<not> beginsWith 0x2D ([str ''a'', str ''-b'', str ''c''] ! 2)
   \<and> sectionNum [str ''a'', str ''-b'', str ''c''] (Some (beginsWith 0x2D)) 1 [0, 1, 2]
        = [(0, 0, 1), (1, 0, 2), (2, 1, 1)]"
  by (simp add: sectionNum_def isSectionStart_def beginsWith_def Let_def)

section \<open>A delimiter that matches nothing\<close>

lemma sectionNum_no_match:
  assumes "R = None \<or> (\<exists>r. R = Some r \<and> \<not> list_ex r doc)"
  shows "sectionNum doc R ssp lns = map (\<lambda>k. (lns ! k, 0, k + 1)) [0 ..< length lns]"
proof -
  have "\<forall>ln \<in> set lns. \<not> isSectionStart doc R ssp ln"
    using assms isSectionStart_no_match by blast
  from sectionWalk_none [OF this, of 0 0] show ?thesis by (simp add: sectionNum_def)
qed

lemma resolveSectionHeader_no_match:
  assumes "R = None \<or> (\<exists>r. R = Some r \<and> \<not> list_ex r doc)"
  shows "resolveSectionHeader rw doc R g = g\<lparr>sectionHeaderHeight := 0\<rparr>"
  using assms by (auto simp: resolveSectionHeader_def)

lemma resolveSectionHeader_off:
  "resolveSectionHeader rw doc R (g\<lparr>sectionHeader := False\<rparr>)
     = g\<lparr>sectionHeader := False, sectionHeaderHeight := 0\<rparr>"
  by (simp add: resolveSectionHeader_def)

lemma resolveHeader_flag:
  "resolveHeader rw doc (f\<lparr>sectionHeader := b\<rparr>) = (resolveHeader rw doc f)\<lparr>sectionHeader := b\<rparr>"
  by (simp add: resolveHeader_def heightOf_def)

lemma gotoClamp_flag:
  "gotoClamp (g\<lparr>sectionHeader := b\<rparr>) = (gotoClamp g)\<lparr>sectionHeader := b\<rparr>"
  by (simp add: gotoClamp_def available_def)

lemma prepareDraw_no_match:
  assumes "R = None \<or> (\<exists>r. R = Some r \<and> \<not> list_ex r doc)"
  shows "prepareDraw rw doc R f
     = (prepareDraw rw doc R (f\<lparr>sectionHeader := False\<rparr>))\<lparr>sectionHeader := sectionHeader f\<rparr>"
  using assms
  by (auto simp: prepareDraw_def resolveSectionHeader_def resolveHeader_def gotoClamp_def
        available_def heightOf_def)

lemma prepareDraw_heights:
  "headerHeight (prepareDraw rw doc R f) = heightOf rw doc f (skipLines f) (Header f)"
  by (auto simp: prepareDraw_def gotoClamp_def resolveSectionHeader_def resolveHeader_def Let_def
        split: option.splits)

lemma prepareDraw_no_match_height:
  assumes "R = None \<or> (\<exists>r. R = Some r \<and> \<not> list_ex r doc)"
  shows "sectionHeaderHeight (prepareDraw rw doc R f) = 0"
  using assms by (simp add: prepareDraw_def resolveSectionHeader_no_match gotoClamp_def)

text \<open>
  C8. If the section delimiter did not compile, or matches no line of the document, then
  for every frame \<open>prepareDraw\<close> leaves \<open>sectionHeaderHeight\<close> at 0, every visible row
  is tagged \<open>(0, n)\<close> with \<open>n\<close> counting from 1, \<open>headerHeight\<close> is the height of the
  header lines alone, and the whole result, \<open>headerHeight\<close> and \<open>topLN\<close> included, is
  the one that the same frame gives with the section header switched off.
\<close>

theorem section_delimiter_no_match_noop:
  assumes "R = None \<or> (\<exists>r. R = Some r \<and> \<not> list_ex r doc)"
  shows "sectionHeaderHeight (prepareDraw rw doc R f) = 0
       \<and> sectionNum doc R ssp lns = map (\<lambda>k. (lns ! k, 0, k + 1)) [0 ..< length lns]
       \<and> headerHeight (prepareDraw rw doc R f) = heightOf rw doc f (skipLines f) (Header f)
       \<and> headerHeight (prepareDraw rw doc R f)
           = headerHeight (prepareDraw rw doc R (f\<lparr>sectionHeader := False\<rparr>))
       \<and> topLN (prepareDraw rw doc R f)
           = topLN (prepareDraw rw doc R (f\<lparr>sectionHeader := False\<rparr>))
       \<and> prepareDraw rw doc R f
           = (prepareDraw rw doc R (f\<lparr>sectionHeader := False\<rparr>))\<lparr>sectionHeader := sectionHeader f\<rparr>"
proof (intro conjI)
  note e = prepareDraw_no_match [OF assms, of rw f]
  show "sectionHeaderHeight (prepareDraw rw doc R f) = 0"
    by (rule prepareDraw_no_match_height [OF assms])
  show "sectionNum doc R ssp lns = map (\<lambda>k. (lns ! k, 0, k + 1)) [0 ..< length lns]"
    by (rule sectionNum_no_match [OF assms])
  show "headerHeight (prepareDraw rw doc R f) = heightOf rw doc f (skipLines f) (Header f)"
    by (rule prepareDraw_heights)
  show "headerHeight (prepareDraw rw doc R f)
           = headerHeight (prepareDraw rw doc R (f\<lparr>sectionHeader := False\<rparr>))"
    by (subst e) simp
  show "topLN (prepareDraw rw doc R f)
           = topLN (prepareDraw rw doc R (f\<lparr>sectionHeader := False\<rparr>))"
    by (subst e) simp
  show "prepareDraw rw doc R f
           = (prepareDraw rw doc R (f\<lparr>sectionHeader := False\<rparr>))\<lparr>sectionHeader := sectionHeader f\<rparr>"
    by (rule e)
qed

lemma no_hash: "\<not> list_ex (beginsWith 0x23) section2Like"
  by (simp add: section2Like_unfold beginsWith_def)

theorem section_delimiter_no_match_noop_witness:
  "\<not> list_ex (beginsWith 0x23) section2Like
   \<and> sectionHeaderHeight (prepareDraw unitWidth section2Like (Some (beginsWith 0x23)) s2Frame) = 0
   \<and> headerHeight (prepareDraw unitWidth section2Like (Some (beginsWith 0x23)) s2Frame) = 3
   \<and> topLN (prepareDraw unitWidth section2Like (Some (beginsWith 0x23)) s2Frame) = 10
   \<and> sectionNum section2Like (Some (beginsWith 0x23)) 0 [10, 11, 12]
        = [(10, 0, 1), (11, 0, 2), (12, 0, 3)]
   \<and> sectionHeaderHeight (prepareDraw unitWidth section2Like None s2Frame) = 0
   \<and> sectionHeaderHeight (prepareDraw unitWidth section2Like (Some (beginsWith 0x2D)) s2Frame) = 3"
proof -
  note t = section_delimiter_no_match_noop [where R = "Some (beginsWith 0x23)"
      and doc = section2Like and rw = unitWidth and f = s2Frame and ssp = 0 and lns = "[10, 11, 12]"]
  note n = section_delimiter_no_match_noop [where R = None
      and doc = section2Like and rw = unitWidth and f = s2Frame and ssp = 0 and lns = "[10, 11, 12]"]
  have a: "Some (beginsWith 0x23) = None
      \<or> (\<exists>r. Some (beginsWith 0x23) = Some r \<and> \<not> list_ex r section2Like)"
    using no_hash by simp
  have hh: "heightOf unitWidth section2Like s2Frame (skipLines s2Frame) (Header s2Frame) = 3"
    by (simp add: heightOf_def s2Frame_def rowsOf_def stringWidth_def unitWidth_def lineAt_def
          section2Like_unfold upt_rec)
  have up: "[0 ..< length [10, 11, 12::nat]] = [0, 1, 2]" by (simp add: upt_rec)
  have tl: "topLN (prepareDraw unitWidth section2Like (Some (beginsWith 0x23)) s2Frame) = 10"
    by (simp add: prepareDraw_def gotoClamp_def resolveSectionHeader_def resolveHeader_def
          s2Frame_def Let_def no_hash)
  have m: "sectionHeaderHeight (prepareDraw unitWidth section2Like (Some (beginsWith 0x2D)) s2Frame) = 3"
    by (simp add: prepareDraw_def gotoClamp_def resolveSectionHeader_def resolveHeader_def
          s2Frame_def Let_def heightOf_def rowsOf_def stringWidth_def unitWidth_def lineAt_def
          findSectionHeaderLN_def section2Like_unfold beginsWith_def upt_rec)
  from t [OF a] have r1:
      "sectionHeaderHeight (prepareDraw unitWidth section2Like (Some (beginsWith 0x23)) s2Frame) = 0"
    and r2: "sectionNum section2Like (Some (beginsWith 0x23)) 0 [10, 11, 12]
        = map (\<lambda>k. ([10, 11, 12] ! k, 0, k + 1)) [0 ..< length [10, 11, 12::nat]]"
    and r3: "headerHeight (prepareDraw unitWidth section2Like (Some (beginsWith 0x23)) s2Frame)
        = heightOf unitWidth section2Like s2Frame (skipLines s2Frame) (Header s2Frame)"
    by blast+
  from n have r4: "sectionHeaderHeight (prepareDraw unitWidth section2Like None s2Frame) = 0"
    by blast
  have r2': "sectionNum section2Like (Some (beginsWith 0x23)) 0 [10, 11, 12]
        = [(10, 0, 1), (11, 0, 2), (12, 0, 3)]"
    unfolding r2 up by simp
  show ?thesis
    using r1 r2' r3 r4 hh tl m no_hash by simp

qed

section \<open>The goto clamp\<close>






end
